theory Spec2Isabelle
  imports Complex_Main "HOL-Library.Sublist" "HOL-Library.AList"
begin

section \<open>JavaScript values\<close>

text \<open>
  The services are loosely typed: a backend response is whatever JSON the server sent, and
  the code branches on \<^verbatim>\<open>typeof\<close>, on truthiness and on the presence of properties.
  The model keeps that: one datatype of values. A JSON number is a rational (every finite
  double is one); an object is its list of own properties in insertion order, with
  distinct keys, as \<^verbatim>\<open>JSON.parse\<close> and object literals build it.
\<close>

datatype jsval =
    Undefined
  | Null
  | Bool bool
  | Num rat
  | Str string
  | Arr "jsval list"
  | Obj "(string \<times> jsval) list"

text \<open>
  What a \<^verbatim>\<open>throw\<close> carries: a \<^verbatim>\<open>TypeError\<close> of the runtime, the rejection of
  an axios request (with whatever the transport reported), or \<^verbatim>\<open>new Error(msg)\<close>.
\<close>

datatype js_error =
    TypeError
  | RequestFailed string
  | Error string

type_synonym 'a result = "js_error + 'a"

definition bind_err :: "'a result \<Rightarrow> ('a \<Rightarrow> 'b result) \<Rightarrow> 'b result" where
  "bind_err r f = (case r of Inl e \<Rightarrow> Inl e | Inr v \<Rightarrow> f v)"

fun succeeded :: "'a result \<Rightarrow> bool" where
  "succeeded (Inr v) = True"
| "succeeded (Inl e) = False"

fun mapM_err :: "('a \<Rightarrow> 'b result) \<Rightarrow> 'a list \<Rightarrow> 'b list result" where
  "mapM_err f [] = Inr []"
| "mapM_err f (x # xs) =
     (case f x of
        Inl e \<Rightarrow> Inl e
      | Inr y \<Rightarrow> (case mapM_err f xs of Inl e \<Rightarrow> Inl e | Inr ys \<Rightarrow> Inr (y # ys)))"

fun filterM_err :: "('a \<Rightarrow> bool result) \<Rightarrow> 'a list \<Rightarrow> 'a list result" where
  "filterM_err p [] = Inr []"
| "filterM_err p (x # xs) =
     (case p x of
        Inl e \<Rightarrow> Inl e
      | Inr b \<Rightarrow>
          (case filterM_err p xs of
             Inl e \<Rightarrow> Inl e
           | Inr ys \<Rightarrow> Inr (if b then x # ys else ys)))"

text \<open>\<^verbatim>\<open>typeof v\<close>; note that \<^verbatim>\<open>typeof null\<close> is \<^verbatim>\<open>'object'\<close>, and so is an array's.\<close>

fun typeof :: "jsval \<Rightarrow> string" where
  "typeof Undefined = ''undefined''"
| "typeof Null = ''object''"
| "typeof (Bool b) = ''boolean''"
| "typeof (Num n) = ''number''"
| "typeof (Str s) = ''string''"
| "typeof (Arr xs) = ''object''"
| "typeof (Obj kvs) = ''object''"

text \<open>Truthiness: \<^verbatim>\<open>undefined\<close>, \<^verbatim>\<open>null\<close>, \<^verbatim>\<open>false\<close>, \<^verbatim>\<open>0\<close> and \<^verbatim>\<open>''\<close> are falsy.\<close>

fun truthy :: "jsval \<Rightarrow> bool" where
  "truthy Undefined = False"
| "truthy Null = False"
| "truthy (Bool b) = b"
| "truthy (Num n) = (n \<noteq> 0)"
| "truthy (Str s) = (s \<noteq> [])"
| "truthy (Arr xs) = True"
| "truthy (Obj kvs) = True"

text \<open>\<^verbatim>\<open>a || b\<close> on values.\<close>

definition js_or :: "jsval \<Rightarrow> jsval \<Rightarrow> jsval" where
  "js_or a b = (if truthy a then a else b)"

text \<open>
  \<^verbatim>\<open>v.k\<close> for the property names the services read (\<^verbatim>\<open>name\<close>, \<^verbatim>\<open>skill\<close>,
  \<^verbatim>\<open>matchScore\<close>, \<^verbatim>\<open>summary\<close>, ...; none of them is a built-in property of a
  string or an array): reading a property of \<^verbatim>\<open>null\<close> or \<^verbatim>\<open>undefined\<close>
  throws a TypeError, an object gives its own property or \<^verbatim>\<open>undefined\<close>, every other
  value gives \<^verbatim>\<open>undefined\<close>.
\<close>

fun get_prop :: "jsval \<Rightarrow> string \<Rightarrow> jsval result" where
  "get_prop Undefined k = Inl TypeError"
| "get_prop Null k = Inl TypeError"
| "get_prop (Obj kvs) k = Inr (case map_of kvs k of None \<Rightarrow> Undefined | Some v \<Rightarrow> v)"
| "get_prop v k = Inr Undefined"

text \<open>A chain of property reads, \<^verbatim>\<open>v.k1.k2\<close>, on the outcome of a call.\<close>

fun get_path :: "jsval result \<Rightarrow> string list \<Rightarrow> jsval result" where
  "get_path r [] = r"
| "get_path r (k # ks) = get_path (bind_err r (\<lambda>v. get_prop v k)) ks"

text \<open>\<^verbatim>\<open>Array.isArray(v)\<close>.\<close>

fun isArray :: "jsval \<Rightarrow> bool" where
  "isArray (Arr xs) = True"
| "isArray v = False"

text \<open>\<^verbatim>\<open>xs.slice(a, b)\<close> on an array, for \<^verbatim>\<open>0 <= a <= b\<close>.\<close>

text \<open>The elements of an array.\<close>

fun elements :: "jsval \<Rightarrow> jsval list" where
  "elements (Arr xs) = xs"
| "elements v = []"

definition slice :: "'a list \<Rightarrow> nat \<Rightarrow> nat \<Rightarrow> 'a list" where
  "slice xs a b = take (b - a) (drop a xs)"

section \<open>The training script and the evaluation endpoint\<close>

text \<open>
  \<^verbatim>\<open>df['match_label'] = (df['matched_score'].astype(float) > 0.6).astype(int)\<close>:
  the label of one row. The threshold is the literal of the script; the function has no
  threshold argument.
\<close>

definition match_label :: "rat \<Rightarrow> int" where
  "match_label matched_score = (if matched_score > 6 / 10 then 1 else 0)"

text \<open>
  \<^verbatim>\<open>torch.argmax(logits, dim=1).item()\<close> for the classifier of the script, which has
  \<^verbatim>\<open>num_labels=2\<close>: the index of the larger logit, the first one on a tie.
\<close>

definition predicted_class :: "rat \<times> rat \<Rightarrow> nat" where
  "predicted_class logits = (if snd logits > fst logits then 1 else 0)"

text \<open>
  The \<^verbatim>\<open>/ats/evaluate\<close> handler. The tokenizer and the fine-tuned model are the
  parameter \<open>model\<close>, from the combined text to the two logits.
\<close>

definition evaluate :: "(string \<Rightarrow> rat \<times> rat) \<Rightarrow> string \<Rightarrow> string \<Rightarrow> string" where
  "evaluate model job_description resume =
     (let combined_text = job_description @ '' [SEP] '' @ resume;
          logits = model combined_text
      in if predicted_class logits = 1 then ''Match'' else ''No Match'')"

section \<open>The mock AI service\<close>

definition mockResponses_ranking :: jsval where
  "mockResponses_ranking = Arr
     [Obj [(''candidateName'', Str ''John Doe''),
           (''score'', Num 85),
           (''strengths'', Arr [Str ''Technical expertise'', Str ''Leadership experience'',
                                Str ''Communication skills''])],
      Obj [(''candidateName'', Str ''Jane Smith''),
           (''score'', Num 92),
           (''strengths'', Arr [Str ''Relevant industry experience'', Str ''Project management'',
                                Str ''Innovation''])]]"

text \<open>
  \<^verbatim>\<open>rankCandidates(jobDescription, candidates)\<close>; \<open>now\<close> is what
  \<^verbatim>\<open>new Date().toISOString()\<close> returns at the call.
\<close>

definition rankCandidates :: "jsval \<Rightarrow> jsval \<Rightarrow> string \<Rightarrow> jsval" where
  "rankCandidates jobDescription candidates now =
     Obj [(''rankings'', mockResponses_ranking), (''timestamp'', Str now)]"

text \<open>A named property of every entry of a list of ranking entries, in order.\<close>

definition column :: "string \<Rightarrow> jsval result \<Rightarrow> jsval result list" where
  "column k r = (case r of Inl e \<Rightarrow> [] | Inr v \<Rightarrow> map (\<lambda>c. get_prop c k) (elements v))"

section \<open>Strings\<close>

text \<open>
  \<^verbatim>\<open>String.prototype.toLowerCase\<close> is the runtime's: it follows the Unicode case
  mappings, and the functions that call it take it as the parameter \<open>toLowerCase\<close>. What
  is fixed here is its behaviour on ASCII strings, where it turns \<open>A\<close>..\<open>Z\<close> into
  \<open>a\<close>..\<open>z\<close> and keeps every other character: \<open>lowers_ascii\<close> says that of a
  lower-casing function. Nothing else here interprets a character beyond ASCII.
  \<^verbatim>\<open>hay.includes(needle)\<close> is a contiguous sublist, and \<^verbatim>\<open>xs.join(sep)\<close> is as
  usual.
\<close>

definition lower_char :: "char \<Rightarrow> char" where
  "lower_char c =
     (case map_of (zip ''ABCDEFGHIJKLMNOPQRSTUVWXYZ'' ''abcdefghijklmnopqrstuvwxyz'') c of
        None \<Rightarrow> c
      | Some l \<Rightarrow> l)"

definition ascii_toLowerCase :: "string \<Rightarrow> string" where
  "ascii_toLowerCase s = map lower_char s"

definition is_ascii :: "string \<Rightarrow> bool" where
  "is_ascii s = list_all (\<lambda>c. \<not> digit7 c) s"

definition lowers_ascii :: "(string \<Rightarrow> string) \<Rightarrow> bool" where
  "lowers_ascii toLowerCase = (\<forall>s. is_ascii s \<longrightarrow> toLowerCase s = ascii_toLowerCase s)"

definition str_includes :: "string \<Rightarrow> string \<Rightarrow> bool" where
  "str_includes hay needle = sublist needle hay"

fun join :: "string list \<Rightarrow> string \<Rightarrow> string" where
  "join [] sep = []"
| "join [x] sep = x"
| "join (x # y # ys) sep = x @ sep @ join (y # ys) sep"

text \<open>The decimal numeral of an array index, as a property key.\<close>

fun show_nat :: "nat \<Rightarrow> string" where
  "show_nat n =
     (if n < 10 then [''0123456789'' ! n]
      else show_nat (n div 10) @ [''0123456789'' ! (n mod 10)])"

text \<open>
  The own enumerable properties that an object spread \<^verbatim>\<open>{...v}\<close> copies: an
  object's properties, an array's elements and a string's characters under their
  indices, nothing for the other values.
\<close>

fun own_props :: "jsval \<Rightarrow> (string \<times> jsval) list" where
  "own_props (Obj kvs) = kvs"
| "own_props (Arr xs) = map (\<lambda>i. (show_nat i, xs ! i)) [0..<length xs]"
| "own_props (Str s) = map (\<lambda>i. (show_nat i, Str [s ! i])) [0..<length s]"
| "own_props v = []"

text \<open>
  Assigning properties in order onto an object under construction: an existing key keeps
  its position and takes the new value, a new key goes last.
\<close>

definition assign_props :: "(string \<times> jsval) list \<Rightarrow> (string \<times> jsval) list \<Rightarrow> (string \<times> jsval) list" where
  "assign_props base kvs = fold (\<lambda>kv acc. AList.update (fst kv) (snd kv) acc) kvs base"

text \<open>\<^verbatim>\<open>v[i]\<close> for a numeric index.\<close>

fun js_index :: "jsval \<Rightarrow> nat \<Rightarrow> jsval result" where
  "js_index Undefined i = Inl TypeError"
| "js_index Null i = Inl TypeError"
| "js_index (Arr xs) i = Inr (if i < length xs then xs ! i else Undefined)"
| "js_index (Str s) i = Inr (if i < length s then Str [s ! i] else Undefined)"
| "js_index (Obj kvs) i = Inr (case map_of kvs (show_nat i) of None \<Rightarrow> Undefined | Some v \<Rightarrow> v)"
| "js_index v i = Inr Undefined"

text \<open>What \<^verbatim>\<open>for (const x of v)\<close> iterates over; a plain object is not iterable.\<close>

fun iterate :: "jsval \<Rightarrow> jsval list result" where
  "iterate (Arr xs) = Inr xs"
| "iterate (Str s) = Inr (map (\<lambda>c. Str [c]) s)"
| "iterate v = Inl TypeError"

section \<open>HTTP\<close>

text \<open>
  The services talk to the backend through axios. The world is a responder, which
  answers the \<open>k\<close>-th request issued (a response body, or a failure of the request), and
  the log of the requests sent so far. A backend that does not change answers a request
  the same way whenever it is sent.
\<close>

datatype request = Get string | Post string jsval

record http =
  respond :: "nat \<Rightarrow> request \<Rightarrow> jsval result"
  sent :: "request list"

type_synonym 'a io = "http \<Rightarrow> 'a result \<times> http"

definition axios :: "request \<Rightarrow> jsval io" where
  "axios rq h = (respond h (length (sent h)) rq, h\<lparr>sent := sent h @ [rq]\<rparr>)"

definition pure_io :: "'a result \<Rightarrow> 'a io" where
  "pure_io r h = (r, h)"

definition bind_io :: "'a io \<Rightarrow> ('a \<Rightarrow> 'b io) \<Rightarrow> 'b io" where
  "bind_io m f h = (case m h of (Inl e, h') \<Rightarrow> (Inl e, h') | (Inr v, h') \<Rightarrow> f v h')"

definition API_URL :: string where
  "API_URL = ''http://127.0.0.1:5001/api''"

section \<open>The candidate ranking component\<close>

text \<open>
  The state of the component, and \<^verbatim>\<open>analyzeCandidates\<close>. The success predictor is
  imported from a module outside these sources and is the parameter \<open>predict\<close>.
\<close>

record ranking_state =
  rankings :: "jsval list"
  loading :: bool
  error :: "string option"

definition analyzeCandidates ::
  "(jsval \<Rightarrow> jsval \<Rightarrow> jsval \<Rightarrow> jsval result) \<Rightarrow> jsval \<Rightarrow> jsval \<Rightarrow> jsval \<Rightarrow> string \<Rightarrow>
     ranking_state \<Rightarrow> ranking_state" where
  "analyzeCandidates predict jobDescription candidates historicalData now st =
     (let st1 = st\<lparr>loading := True, error := None\<rparr>;
          rankingResults = rankCandidates jobDescription candidates now;
          rankedCandidates =
            bind_err (iterate rankingResults)
              (mapM_err (\<lambda>candidate.
                 bind_err (predict candidate jobDescription historicalData)
                   (\<lambda>prediction.
                      Inr (Obj (assign_props (own_props candidate)
                                  [(''prediction'', prediction)])))))
      in case rankedCandidates of
           Inr rs \<Rightarrow> st1\<lparr>rankings := rs, loading := False\<rparr>
         | Inl e \<Rightarrow>
             st1\<lparr>error := Some ''Failed to rank candidates. Please try again.'',
                 loading := False\<rparr>)"

section \<open>The resume API service\<close>

text \<open>
  \<^verbatim>\<open>checkBackendStatus\<close>: one GET of the status route; true when it succeeds, false
  when it fails. The function keeps nothing between calls. (The resume generation
  service declares the same function, word for word.)
\<close>

definition checkBackendStatus :: "http \<Rightarrow> bool \<times> http" where
  "checkBackendStatus h =
     (case axios (Get (API_URL @ ''/model-status'')) h of
        (Inr v, h') \<Rightarrow> (True, h')
      | (Inl err, h') \<Rightarrow> (False, h'))"

text \<open>
  One entry of the response of \<^verbatim>\<open>/extract-skills\<close>, as the callback of
  \<^verbatim>\<open>skills.map\<close> treats it. \<^verbatim>\<open>JSON.stringify\<close> and \<^verbatim>\<open>String\<close> are the
  runtime's, and parameters here.
\<close>

definition skill_entry :: "(jsval \<Rightarrow> string) \<Rightarrow> (jsval \<Rightarrow> string) \<Rightarrow> jsval \<Rightarrow> jsval result" where
  "skill_entry stringify toString skill =
     (if typeof skill = ''string'' then Inr (Obj [(''name'', skill)])
      else if typeof skill = ''object'' then
        bind_err (get_prop skill ''skill'') (\<lambda>sk.
          if truthy sk then Inr (Obj (assign_props [(''name'', sk)] (own_props skill)))
          else bind_err (get_prop skill ''name'') (\<lambda>nm.
            if truthy nm then Inr skill
            else Inr (Obj [(''name'', Str (stringify skill))])))
      else Inr (Obj [(''name'', Str (toString skill))]))"

text \<open>
  \<^verbatim>\<open>extractSkills\<close> of the API service: the request, then the entries made uniform;
  a failure of the request, or an exception of the callback, is logged and thrown again.
\<close>

definition extractSkills ::
  "(jsval \<Rightarrow> string) \<Rightarrow> (jsval \<Rightarrow> string) \<Rightarrow> string \<Rightarrow> jsval list io" where
  "extractSkills stringify toString jobDescription =
     bind_io (axios (Post (API_URL @ ''/extract-skills'')
                (Obj [(''jobDescription'', Str jobDescription)])))
       (\<lambda>data. pure_io
          (if isArray data then mapM_err (skill_entry stringify toString) (elements data)
           else Inr []))"

text \<open>
  \<^verbatim>\<open>calculateMatchScore\<close> and \<^verbatim>\<open>generatePersonalizedResume\<close> (again the same in
  both services): the request; its failure is logged and thrown again.
\<close>

definition calculateMatchScore :: "string \<Rightarrow> jsval \<Rightarrow> jsval io" where
  "calculateMatchScore resume jobSkills =
     bind_io (axios (Post (API_URL @ ''/match-resume'')
                (Obj [(''resume'', Str resume), (''jobSkills'', jobSkills)])))
       (\<lambda>data. pure_io (get_prop data ''matchScore''))"

definition generatePersonalizedResume :: "string \<Rightarrow> string \<Rightarrow> jsval \<Rightarrow> jsval io" where
  "generatePersonalizedResume resume jobDescription extractedSkills =
     axios (Post (API_URL @ ''/generate-resume'')
       (Obj [(''resume'', Str resume), (''jobDescription'', Str jobDescription),
             (''extractedSkills'', extractedSkills)]))"

section \<open>The resume generation service\<close>

subsection \<open>The candidate profile\<close>

text \<open>
  The profile the service reads. A field that is missing, \<^verbatim>\<open>null\<close> or empty is
  \<open>None\<close> or the empty string; both are falsy and print as the empty string.
\<close>

record personal_info =
  name :: "string option"
  email :: "string option"
  phone :: "string option"
  location :: "string option"

record experience_item =
  title :: "string option"
  company :: "string option"
  duration :: "string option"
  description :: "string option"

record education_item =
  degree :: "string option"
  school :: "string option"
  year :: "string option"

record candidate_profile =
  personalInfo :: "personal_info option"
  experience :: "experience_item list option"
  education :: "education_item list option"
  skills :: "string list option"

text \<open>\<^verbatim>\<open>${x || ''}\<close> in a template literal, and a field read into an object literal.\<close>

definition or_empty :: "string option \<Rightarrow> string" where
  "or_empty x = (case x of None \<Rightarrow> [] | Some s \<Rightarrow> s)"

definition field_val :: "string option \<Rightarrow> jsval" where
  "field_val x = (case x of None \<Rightarrow> Undefined | Some s \<Rightarrow> Str s)"

definition newline :: string where
  "newline = [CHR 0x0A]"

definition experience_text :: "experience_item \<Rightarrow> string" where
  "experience_text entry =
     or_empty (title entry) @ '' at '' @ or_empty (company entry) @ '' ('' @
       or_empty (duration entry) @ '')'' @ newline @
     or_empty (description entry) @ newline @ newline"

definition education_text :: "education_item \<Rightarrow> string" where
  "education_text edu =
     or_empty (degree edu) @ '' from '' @ or_empty (school edu) @ '' ('' @
       or_empty (year edu) @ '')'' @ newline"

definition convertProfileToText :: "candidate_profile option \<Rightarrow> string" where
  "convertProfileToText profile =
     (case profile of
        None \<Rightarrow> []
      | Some p \<Rightarrow>
          (case personalInfo p of
             None \<Rightarrow> []
           | Some info \<Rightarrow>
               (let text = or_empty (name info) @ newline;
                    text = text @ or_empty (email info) @ '' | '' @ or_empty (phone info) @
                             '' | '' @ or_empty (location info) @ newline @ newline;
                    text = text @ ''EXPERIENCE'' @ newline;
                    text = (case experience p of
                              None \<Rightarrow> text
                            | Some exps \<Rightarrow> text @ concat (map experience_text exps));
                    text = text @ ''EDUCATION'' @ newline;
                    text = (case education p of
                              None \<Rightarrow> text
                            | Some edus \<Rightarrow> text @ concat (map education_text edus));
                    text = text @ ''SKILLS'' @ newline;
                    text = (case skills p of
                              None \<Rightarrow> text
                            | Some ss \<Rightarrow> if length ss > 0 then text @ join ss '', '' else text)
                in text)))"

subsection \<open>Requests\<close>

text \<open>\<^verbatim>\<open>extractSkills\<close> of the generation service returns the response body as it is.\<close>

definition gen_extractSkills :: "string \<Rightarrow> jsval io" where
  "gen_extractSkills jobDescription =
     axios (Post (API_URL @ ''/extract-skills'') (Obj [(''jobDescription'', Str jobDescription)]))"

subsection \<open>Analysis of a job description against a profile\<close>

text \<open>
  The callbacks of \<^verbatim>\<open>analyzeJobAndProfile\<close>:
  \<^verbatim>\<open>skill => skill.name || ''\<close> over a slice of the extracted skills, and the filter
  \<^verbatim>\<open>skill => skill && resumeText && !resumeText.toLowerCase().includes(skill.toLowerCase())\<close>,
  in which \<^verbatim>\<open>toLowerCase\<close> exists on strings only and is the runtime's.
\<close>

definition skill_names :: "jsval list \<Rightarrow> jsval list result" where
  "skill_names xs =
     mapM_err (\<lambda>skill. bind_err (get_prop skill ''name'') (\<lambda>n. Inr (js_or n (Str [])))) xs"

definition not_in_resume :: "(string \<Rightarrow> string) \<Rightarrow> string \<Rightarrow> jsval \<Rightarrow> bool result" where
  "not_in_resume toLowerCase resumeText skill =
     (if \<not> truthy skill then Inr False
      else if resumeText = [] then Inr False
      else (case skill of
              Str s \<Rightarrow> Inr (\<not> str_includes (toLowerCase resumeText) (toLowerCase s))
            | _ \<Rightarrow> Inl TypeError))"

definition names_slice :: "jsval \<Rightarrow> nat \<Rightarrow> nat \<Rightarrow> jsval list result" where
  "names_slice extractedSkills a b =
     (if isArray extractedSkills then skill_names (slice (elements extractedSkills) a b)
      else Inl TypeError)"

definition missing_slice ::
  "(string \<Rightarrow> string) \<Rightarrow> jsval \<Rightarrow> string \<Rightarrow> nat \<Rightarrow> nat \<Rightarrow> jsval list result" where
  "missing_slice toLowerCase extractedSkills resumeText a b =
     bind_err (names_slice extractedSkills a b)
       (filterM_err (not_in_resume toLowerCase resumeText))"

definition recommendedSections :: jsval where
  "recommendedSections =
     Arr [Str ''Professional Summary'', Str ''Technical Skills'', Str ''Work Experience'',
          Str ''Education'', Str ''Projects'']"

definition toneSuggestions :: jsval where
  "toneSuggestions =
     Obj [(''industry'', Str ''technology''), (''formality'', Str ''semi-formal''),
          (''focus'', Str ''technical expertise'')]"

definition improvements :: jsval where
  "improvements =
     Arr [Str ''Add more quantifiable achievements'',
          Str ''Include specific projects related to the job requirements'',
          Str ''Highlight relevant skills and experiences'']"

definition analysis_of ::
  "(string \<Rightarrow> string) \<Rightarrow> jsval \<Rightarrow> string \<Rightarrow> jsval \<Rightarrow> jsval result" where
  "analysis_of toLowerCase extractedSkills resumeText matchScore =
     bind_err (names_slice extractedSkills 0 3) (\<lambda>matched.
     bind_err (missing_slice toLowerCase extractedSkills resumeText 3 6) (\<lambda>missing.
     bind_err (names_slice extractedSkills 6 9) (\<lambda>partial.
     bind_err (missing_slice toLowerCase extractedSkills resumeText 0 2) (\<lambda>critical.
     bind_err (missing_slice toLowerCase extractedSkills resumeText 2 5) (\<lambda>recommended.
     bind_err (names_slice extractedSkills 5 7) (\<lambda>nice.
       Inr (Obj
         [(''keywordMatch'',
             Obj [(''matched'', Arr matched), (''missing'', Arr missing),
                  (''partial'', Arr partial)]),
          (''recommendedSections'', recommendedSections),
          (''toneSuggestions'', toneSuggestions),
          (''skillGaps'',
             Obj [(''critical'', Arr critical), (''recommended'', Arr recommended),
                  (''nice'', Arr nice)]),
          (''atsScore'', matchScore),
          (''improvements'', improvements)])))))))"

definition analyzeJobAndProfile ::
  "(string \<Rightarrow> string) \<Rightarrow> string \<Rightarrow> candidate_profile option \<Rightarrow> jsval io" where
  "analyzeJobAndProfile toLowerCase jobDescription candidateProfile =
     bind_io (gen_extractSkills jobDescription) (\<lambda>extractedSkills.
       let resumeText = convertProfileToText candidateProfile in
       bind_io (calculateMatchScore resumeText extractedSkills) (\<lambda>matchScore.
         pure_io (analysis_of toLowerCase extractedSkills resumeText matchScore)))"

subsection \<open>Resume content\<close>

text \<open>
  \<^verbatim>\<open>Array.isArray(v) ? v : (v ? [String(v)] : [])\<close>, the experience entries, the
  soft skills, and the content built from the generator's response and the preferences.
\<close>

definition as_array :: "(jsval \<Rightarrow> string) \<Rightarrow> jsval \<Rightarrow> jsval list" where
  "as_array toString v =
     (if isArray v then elements v else if truthy v then [Str (toString v)] else [])"

definition experience_entry :: "jsval \<Rightarrow> jsval" where
  "experience_entry e =
     Obj [(''title'', Str ''Experience''), (''company'', Str []), (''duration'', Str []),
          (''achievements'', Arr [e])]"

definition is_soft_skill :: "(string \<Rightarrow> string) \<Rightarrow> jsval \<Rightarrow> bool" where
  "is_soft_skill toLowerCase skill =
     (case skill of
        Str s \<Rightarrow>
          toLowerCase s \<in> set [''leadership'', ''communication'', ''teamwork'', ''problem-solving'']
      | _ \<Rightarrow> False)"

definition content_of ::
  "(jsval \<Rightarrow> string) \<Rightarrow> (string \<Rightarrow> string) \<Rightarrow> jsval \<Rightarrow> jsval \<Rightarrow> jsval result" where
  "content_of toString toLowerCase generatedResume preferences =
     bind_err (get_prop generatedResume ''experience'') (\<lambda>ex.
     bind_err (get_prop generatedResume ''skills'') (\<lambda>sk.
       let experienceArray = as_array toString ex;
           skillsArray = as_array toString sk
       in
     bind_err (get_prop generatedResume ''summary'') (\<lambda>summary.
     bind_err (get_prop generatedResume ''education'') (\<lambda>ed.
     bind_err (js_index ed 0) (\<lambda>ed0.
     bind_err (js_index ed 1) (\<lambda>ed1.
     bind_err (get_prop preferences ''format'') (\<lambda>fmt.
     bind_err (get_prop preferences ''tone'') (\<lambda>tone.
     bind_err (get_prop generatedResume ''matchScore'') (\<lambda>score.
       Inr (Obj
         [(''content'',
             Obj [(''summary'', js_or summary (Str [])),
                  (''experience'', Arr (map experience_entry experienceArray)),
                  (''skills'',
                     Obj [(''technical'', Arr skillsArray),
                          (''soft'', Arr (filter (is_soft_skill toLowerCase) skillsArray))]),
                  (''education'',
                     Obj [(''degree'', js_or ed0 (Str ''Bachelor's Degree'')),
                          (''institution'', js_or ed1 (Str ''University'')),
                          (''year'', Str ''2020'')])]),
          (''format'', js_or fmt (Str ''modern'')),
          (''tone'', js_or tone (Str ''professional'')),
          (''atsCompatibility'', js_or score (Num 85))]))))))))))"

definition generateResumeContent ::
  "(jsval \<Rightarrow> string) \<Rightarrow> (string \<Rightarrow> string) \<Rightarrow> string \<Rightarrow> candidate_profile option \<Rightarrow> jsval \<Rightarrow>
     jsval io" where
  "generateResumeContent toString toLowerCase jobDescription candidateProfile preferences =
     bind_io (gen_extractSkills jobDescription) (\<lambda>extractedSkills.
       let resumeText = convertProfileToText candidateProfile in
       bind_io (generatePersonalizedResume resumeText jobDescription extractedSkills)
         (\<lambda>generatedResume.
            pure_io (content_of toString toLowerCase generatedResume preferences)))"

definition checkAtsCompatibility :: "jsval \<Rightarrow> jsval result" where
  "checkAtsCompatibility resumeContent =
     bind_err (get_prop resumeContent ''atsCompatibility'') (\<lambda>score.
       Inr (Obj
         [(''score'', js_or score (Num 85)),
          (''issues'',
             Arr [Obj [(''type'', Str ''formatting''),
                       (''description'', Str ''Use standard section headings''),
                       (''severity'', Str ''medium'')]]),
          (''suggestions'',
             Arr [Str ''Use \"Work Experience\" instead of \"Professional History\"'',
                  Str ''Ensure all dates are in MM/YYYY format'',
                  Str ''Remove graphics and special characters''])]))"

subsection \<open>The final resume\<close>

text \<open>
  The object \<^verbatim>\<open>generateFinalResume\<close> returns once every request has succeeded;
  \<open>now\<close> is what \<^verbatim>\<open>new Date().toISOString()\<close> returns at the call. Reading
  \<^verbatim>\<open>candidateProfile.personalInfo.name\<close> throws when the profile or its personal
  information is missing.
\<close>

definition contact_of :: "candidate_profile option \<Rightarrow> jsval result" where
  "contact_of candidateProfile =
     (case candidateProfile of
        None \<Rightarrow> Inl TypeError
      | Some p \<Rightarrow>
          (case personalInfo p of
             None \<Rightarrow> Inl TypeError
           | Some info \<Rightarrow>
               Inr (Obj [(''name'', field_val (name info)), (''email'', field_val (email info)),
                         (''phone'', field_val (phone info)),
                         (''location'', field_val (location info))])))"

definition array_or_single :: "jsval \<Rightarrow> jsval" where
  "array_or_single v = (if isArray v then v else if truthy v then Arr [v] else Arr [])"

definition versions_at :: "string \<Rightarrow> jsval" where
  "versions_at now =
     Arr [Obj [(''id'', Num 1), (''timestamp'', Str now),
               (''changes'', Arr [Str ''Initial version''])]]"

definition final_resume ::
  "jsval \<Rightarrow> jsval \<Rightarrow> jsval \<Rightarrow> jsval \<Rightarrow> candidate_profile option \<Rightarrow> jsval \<Rightarrow> string \<Rightarrow> jsval result" where
  "final_resume content analysis atsCheck template candidateProfile generatedResume now =
     bind_err (contact_of candidateProfile) (\<lambda>contact.
     bind_err (get_prop generatedResume ''summary'') (\<lambda>summary.
     bind_err (get_prop generatedResume ''skills'') (\<lambda>sk.
     bind_err (get_prop generatedResume ''experience'') (\<lambda>ex.
     bind_err (get_prop generatedResume ''education'') (\<lambda>ed.
       Inr (Obj
         [(''content'', content),
          (''analysis'', analysis),
          (''atsCheck'', atsCheck),
          (''template'', template),
          (''generatedResume'',
             Obj [(''contact'', contact),
                  (''summary'', js_or summary (Str [])),
                  (''skills'', if isArray sk then sk else Arr []),
                  (''experience'', array_or_single ex),
                  (''education'', array_or_single ed)]),
          (''versions'', versions_at now)]))))))"

definition generateFinalResume ::
  "(jsval \<Rightarrow> string) \<Rightarrow> (string \<Rightarrow> string) \<Rightarrow> string \<Rightarrow> candidate_profile option \<Rightarrow> jsval \<Rightarrow>
     jsval \<Rightarrow> string \<Rightarrow> jsval io" where
  "generateFinalResume toString toLowerCase jobDescription candidateProfile preferences template
     now =
     bind_io (\<lambda>h. case checkBackendStatus h of (b, h') \<Rightarrow> (Inr b, h')) (\<lambda>backendAvailable.
       if \<not> backendAvailable then
         pure_io (Inl (Error
           ''Backend service is not available. Please make sure the Python backend is running.''))
       else
     bind_io (analyzeJobAndProfile toLowerCase jobDescription candidateProfile) (\<lambda>analysis.
     bind_io (generateResumeContent toString toLowerCase jobDescription candidateProfile
                preferences)
       (\<lambda>content.
     bind_io (pure_io (checkAtsCompatibility content)) (\<lambda>atsCheck.
     bind_io (gen_extractSkills jobDescription) (\<lambda>extractedSkills.
       let resumeText = convertProfileToText candidateProfile in
     bind_io (generatePersonalizedResume resumeText jobDescription extractedSkills)
       (\<lambda>generatedResume.
         pure_io (final_resume content analysis atsCheck template candidateProfile
                    generatedResume now)))))))"

section \<open>Sample inputs\<close>

text \<open>
  Worlds and inputs for the closed examples below. The sample runtime stands for
  \<^verbatim>\<open>JSON.stringify\<close> and \<^verbatim>\<open>String\<close>; the theorems hold for every runtime.
  The examples are ASCII throughout, where \<open>ascii_toLowerCase\<close> is what the runtime's
  \<^verbatim>\<open>toLowerCase\<close> does.
\<close>

definition sample_stringify :: "jsval \<Rightarrow> string" where
  "sample_stringify v = ''<json>''"

definition sample_toString :: "jsval \<Rightarrow> string" where
  "sample_toString v = ''<string>''"

definition fresh :: "(nat \<Rightarrow> request \<Rightarrow> jsval result) \<Rightarrow> http" where
  "fresh r = \<lparr>respond = r, sent = []\<rparr>"

text \<open>A backend that refuses every connection.\<close>

definition backend_down :: "nat \<Rightarrow> request \<Rightarrow> jsval result" where
  "backend_down k rq = Inl (RequestFailed ''ECONNREFUSED'')"

text \<open>A backend that refuses the first request and is ready from the second on.\<close>

definition backend_recovering :: "nat \<Rightarrow> request \<Rightarrow> jsval result" where
  "backend_recovering k rq =
     (if k = 0 then Inl (RequestFailed ''ECONNREFUSED'')
      else Inr (Obj [(''status'', Str ''ready'')]))"

text \<open>A backend that answers every request with the same body.\<close>

definition backend_const :: "jsval \<Rightarrow> nat \<Rightarrow> request \<Rightarrow> jsval result" where
  "backend_const body k rq = Inr body"

section \<open>Shapes of skill entries\<close>

text \<open>
  For the statements about \<^verbatim>\<open>extractSkills\<close>. The own property of an object under
  a key (\<^verbatim>\<open>undefined\<close> when there is none); a value that is a string; an object with a
  property \<^verbatim>\<open>name\<close>, and one whose \<^verbatim>\<open>name\<close> is a string; an entry that is not an
  object with a key twice (no object that \<^verbatim>\<open>JSON.parse\<close> builds has one).
\<close>

definition own_prop :: "(string \<times> jsval) list \<Rightarrow> string \<Rightarrow> jsval" where
  "own_prop kvs k = (case map_of kvs k of None \<Rightarrow> Undefined | Some v \<Rightarrow> v)"

fun is_string :: "jsval \<Rightarrow> bool" where
  "is_string (Str s) = True"
| "is_string v = False"

fun has_name :: "jsval \<Rightarrow> bool" where
  "has_name (Obj kvs) = (case map_of kvs ''name'' of Some v \<Rightarrow> True | None \<Rightarrow> False)"
| "has_name v = False"

fun has_string_name :: "jsval \<Rightarrow> bool" where
  "has_string_name (Obj kvs) = (case map_of kvs ''name'' of Some v \<Rightarrow> is_string v | None \<Rightarrow> False)"
| "has_string_name v = False"

fun distinct_keys :: "jsval \<Rightarrow> bool" where
  "distinct_keys (Obj kvs) = distinct (map fst kvs)"
| "distinct_keys v = True"

text \<open>
  The name an entry of the response carries, if it carries one: a string entry is its own
  name; an object with a truthy \<^verbatim>\<open>skill\<close> carries its own \<^verbatim>\<open>name\<close> property when
  it has one (whatever its value) and the skill otherwise; an object without a truthy
  \<^verbatim>\<open>skill\<close> carries its \<^verbatim>\<open>name\<close> when that is truthy. Any other entry (an object
  whose name is empty or missing, an array, a number, a boolean) carries none.
\<close>

fun carried_name :: "jsval \<Rightarrow> jsval option" where
  "carried_name (Str s) = Some (Str s)"
| "carried_name (Obj kvs) =
     (if truthy (own_prop kvs ''skill'')
      then (case map_of kvs ''name'' of Some v \<Rightarrow> Some v | None \<Rightarrow> Some (own_prop kvs ''skill''))
      else if truthy (own_prop kvs ''name'') then Some (own_prop kvs ''name'')
      else None)"
| "carried_name v = None"

definition string_named :: "jsval \<Rightarrow> bool" where
  "string_named x = (case carried_name x of None \<Rightarrow> True | Some n \<Rightarrow> is_string n)"

text \<open>The request \<^verbatim>\<open>extractSkills\<close> sends.\<close>

definition extract_request :: "string \<Rightarrow> request" where
  "extract_request jobDescription =
     Post (API_URL @ ''/extract-skills'') (Obj [(''jobDescription'', Str jobDescription)])"

text \<open>Responses of the skill extractor for the examples.\<close>

definition sample_mixed :: jsval where
  "sample_mixed =
     Arr [Str ''React'',
          Obj [(''skill'', Str ''Python''), (''category'', Str ''language''),
               (''relevance'', Num (9 / 10))],
          Obj [(''name'', Str ''sql''), (''category'', Str ''database'')],
          Obj [(''skill'', Num 5), (''name'', Str ''x'')],
          Obj [(''name'', Num 0)],
          Obj [(''name'', Num 5)],
          Num 5, Bool True, Arr [Str ''a''], Obj []]"

definition sample_wrapped :: jsval where
  "sample_wrapped = Obj [(''skills'', Arr [Str ''React''])]"

text \<open>
  Four skills with metadata: the same name twice, once more in lower case between
  spaces, and an empty name.
\<close>

definition sample_nameless :: jsval where
  "sample_nameless = Obj [(''name'', Str []), (''category'', Str ''unknown'')]"

definition sample_raw_entries :: "jsval list" where
  "sample_raw_entries =
     [Obj [(''name'', Str ''React''), (''category'', Str ''frontend'')],
      Obj [(''name'', Str '' react ''), (''category'', Str ''library'')],
      Obj [(''name'', Str ''React''), (''category'', Str ''framework'')],
      sample_nameless]"

section \<open>Statements about skill gaps\<close>

text \<open>
  For the statements about \<^verbatim>\<open>analyzeJobAndProfile\<close>: the request for the match
  score, and what the filter of the gap lists keeps, on names that are strings: a name
  that is not empty and does not occur, once both are lower-cased by the runtime, in a
  resume text that is not empty.
\<close>

definition match_request :: "string \<Rightarrow> jsval \<Rightarrow> request" where
  "match_request resume jobSkills =
     Post (API_URL @ ''/match-resume'') (Obj [(''resume'', Str resume), (''jobSkills'', jobSkills)])"

definition is_gap :: "(string \<Rightarrow> string) \<Rightarrow> string \<Rightarrow> string \<Rightarrow> bool" where
  "is_gap toLowerCase resumeText n =
     (n \<noteq> [] \<and> resumeText \<noteq> [] \<and> \<not> str_includes (toLowerCase resumeText) (toLowerCase n))"

text \<open>A profile that lists seven skills, and a backend that asks for exactly those.\<close>

definition sample_skill_names :: "string list" where
  "sample_skill_names = [''react'', ''python'', ''sql'', ''java'', ''go'', ''docker'', ''aws'']"

definition sample_skills :: "jsval list" where
  "sample_skills = map (\<lambda>n. Obj [(''name'', Str n)]) sample_skill_names"

definition sample_profile :: candidate_profile where
  "sample_profile =
     \<lparr>personalInfo = Some \<lparr>name = Some ''Ann Lee'', email = Some ''ann@example.org'',
                            phone = None, location = Some ''Toronto''\<rparr>,
      experience = Some [\<lparr>title = Some ''Developer'', company = Some ''Acme'',
                          duration = Some ''2019-2024'', description = Some ''Built services''\<rparr>],
      education = Some [\<lparr>degree = Some ''BSc'', school = Some ''Georgian'', year = Some ''2018''\<rparr>],
      skills = Some [''React'', ''Python'', ''SQL'', ''Java'', ''Go'', ''Docker'', ''AWS'']\<rparr>"

definition sample_generated :: jsval where
  "sample_generated =
     Obj [(''summary'', Str ''Developer with five years of experience''),
          (''skills'', Arr [Str ''React'', Str ''Leadership'']),
          (''experience'', Str ''Built services at Acme''),
          (''education'', Arr [Str ''BSc'', Str ''Georgian''])]"

definition backend_up :: "nat \<Rightarrow> request \<Rightarrow> jsval result" where
  "backend_up k rq =
     (case rq of
        Get url \<Rightarrow> Inr (Obj [(''status'', Str ''ready'')])
      | Post url body \<Rightarrow>
          if url = API_URL @ ''/extract-skills''
          then Inr (Arr sample_skills)
          else if url = API_URL @ ''/match-resume'' then Inr (Obj [(''matchScore'', Num 100)])
          else Inr sample_generated)"

section \<open>Statements about runs\<close>

text \<open>
  A backend is steady when it answers a request the same way whenever the request is
  sent. Between two states of the world, all requests were answered when every request
  sent after the first state got a response and not a failure.
\<close>

definition steady :: "http \<Rightarrow> bool" where
  "steady h = (\<forall>k rq. respond h k rq = respond h 0 rq)"

definition all_answered :: "http \<Rightarrow> http \<Rightarrow> bool" where
  "all_answered h h' =
     list_all (\<lambda>k. succeeded (respond h k (sent h' ! k))) [length (sent h)..<length (sent h')]"

text \<open>Two final resumes that differ at most in the timestamp of their version record.\<close>

definition same_but_timestamp :: "string \<Rightarrow> string \<Rightarrow> jsval \<Rightarrow> jsval \<Rightarrow> bool" where
  "same_but_timestamp now1 now2 v1 v2 =
     (\<exists>body. v1 = Obj (body @ [(''versions'', versions_at now1)]) \<and>
             v2 = Obj (body @ [(''versions'', versions_at now2)]))"

text \<open>
  How two computations compare on a steady backend: their outcomes are related (equal
  errors, related results) from any two states with the same responder, and neither
  changes the responder.
\<close>

definition agree :: "('a \<Rightarrow> 'a \<Rightarrow> bool) \<Rightarrow> 'a io \<Rightarrow> 'a io \<Rightarrow> bool" where
  "agree R m m' =
     (\<forall>h h'. steady h \<longrightarrow> respond h' = respond h \<longrightarrow>
        rel_sum (=) R (fst (m h)) (fst (m' h')) \<and>
        respond (snd (m h)) = respond h \<and> respond (snd (m' h')) = respond h')"

text \<open>
  A computation that, when it returns a result, has sent exactly \<open>n\<close> requests, all of
  them answered.
\<close>

definition sends :: "'a io \<Rightarrow> nat \<Rightarrow> bool" where
  "sends m n =
     (\<forall>h v h'. m h = (Inr v, h') \<longrightarrow>
        respond h' = respond h \<and>
        (\<exists>new. sent h' = sent h @ new \<and> length new = n \<and>
               (\<forall>i<n. succeeded (respond h (length (sent h) + i) (new ! i)))))"

definition unavailable_message :: string where
  "unavailable_message =
     ''Backend service is not available. Please make sure the Python backend is running.''"

text \<open>Preferences and a template for the examples; a backend whose scorer times out.\<close>

definition sample_preferences :: jsval where
  "sample_preferences = Obj [(''format'', Str ''classic'')]"

definition sample_template :: jsval where
  "sample_template = Str ''two-column''"

definition backend_no_scorer :: "nat \<Rightarrow> request \<Rightarrow> jsval result" where
  "backend_no_scorer k rq =
     (case rq of
        Get url \<Rightarrow> Inr (Obj [(''status'', Str ''ready'')])
      | Post url body \<Rightarrow>
          if url = API_URL @ ''/match-resume'' then Inl (RequestFailed ''timeout'')
          else backend_up k rq)"

text \<open>Two instants, one second apart.\<close>

definition first_instant :: string where
  "first_instant = ''2025-01-01T00:00:00.000Z''"

definition second_instant :: string where
  "second_instant = ''2025-01-01T00:00:01.000Z''"

section \<open>Labels and the evaluation endpoint\<close>

text \<open>
  C1, as the code has it: the label of a row is 1 (a match) exactly when its score exceeds
  the fixed threshold 0.6, and 0 otherwise; the script has no threshold parameter. The
  evaluation endpoint answers \<^verbatim>\<open>Match\<close> exactly when the classifier's second logit is
  the larger one (its predicted class is 1, the label of a match), and \<^verbatim>\<open>No Match\<close>
  otherwise; it compares no score with a threshold.
\<close>

theorem match_label_fixed_threshold:
  "(match_label s = 1 \<longleftrightarrow> s > 6 / 10) \<and> (match_label s = 0 \<longleftrightarrow> s \<le> 6 / 10) \<and>
   evaluate model jd r =
     (if snd (model (jd @ '' [SEP] '' @ r)) > fst (model (jd @ '' [SEP] '' @ r))
      then ''Match'' else ''No Match'')"
  by (simp add: match_label_def evaluate_def predicted_class_def Let_def)

text \<open>
  C1 as stated fails for a threshold other than 0.6: at the threshold 0.4 the score 0.5
  exceeds the threshold, and its label is 0.
\<close>

theorem match_label_ignores_threshold:
  "match_label (5 / 10) = 0 \<and> (5 / 10 :: rat) > 4 / 10"
  by (simp add: match_label_def)

section \<open>Ranking\<close>

text \<open>
  C2, as the code has it: \<^verbatim>\<open>rankCandidates\<close> ignores the job description and the
  candidates and returns the fixed mock ranking, John Doe with 85 before Jane Smith with
  92; nothing is sorted and no tie is broken.
\<close>

theorem rankCandidates_fixed:
  "get_prop (rankCandidates jd cands now) ''rankings'' = Inr mockResponses_ranking \<and>
   get_prop (rankCandidates jd' cands' now') ''rankings'' =
     get_prop (rankCandidates jd cands now) ''rankings'' \<and>
   column ''candidateName'' (get_prop (rankCandidates jd cands now) ''rankings'') =
     [Inr (Str ''John Doe''), Inr (Str ''Jane Smith'')] \<and>
   column ''score'' (get_prop (rankCandidates jd cands now) ''rankings'') =
     [Inr (Num 85), Inr (Num 92)]"
  by (simp add: rankCandidates_def mockResponses_ranking_def column_def)

text \<open>
  C2 as stated fails: for two candidates with equal scores the ranking returned holds
  neither of them, and its scores ascend, 85 before 92.
\<close>

theorem rankCandidates_not_descending:
  "column ''score''
     (get_prop
        (rankCandidates (Str ''job'')
           (Arr [Obj [(''id'', Num 2), (''score'', Num (9 / 10))],
                 Obj [(''id'', Num 1), (''score'', Num (9 / 10))]])
           ''2025-01-01T00:00:00.000Z'')
        ''rankings'') =
     [Inr (Num 85), Inr (Num 92)] \<and> (85 :: rat) < 92"
  by (simp add: rankCandidates_def mockResponses_ranking_def column_def)

text \<open>
  The component does not show that ranking either: \<^verbatim>\<open>analyzeCandidates\<close> iterates
  over the object that \<^verbatim>\<open>rankCandidates\<close> returns, not over its list; a plain
  object is not iterable, so the loop throws and the component ends with its error
  message, whatever the predictor does.
\<close>

lemma analyzeCandidates_fails:
  "analyzeCandidates predict jd cands hist now st =
     st\<lparr>loading := False, error := Some ''Failed to rank candidates. Please try again.''\<rparr>"
  by (simp add: analyzeCandidates_def rankCandidates_def bind_err_def Let_def)

section \<open>The status probe\<close>

text \<open>
  C6, as the code has it: \<^verbatim>\<open>checkBackendStatus\<close> caches nothing and reads no clock.
  Every call sends one GET of the status route and returns whether that request
  succeeded, so two calls in a row send two requests.
\<close>

theorem checkBackendStatus_always_probes:
  "checkBackendStatus h =
     (succeeded (respond h (length (sent h)) (Get (API_URL @ ''/model-status''))),
      h\<lparr>sent := sent h @ [Get (API_URL @ ''/model-status'')]\<rparr>) \<and>
   length (sent (snd (checkBackendStatus (snd (checkBackendStatus h))))) = length (sent h) + 2"
  by (auto simp add: checkBackendStatus_def axios_def split: sum.splits)

text \<open>
  C6 as stated fails: right after a failed probe, however short the time since, the next
  call sends a second request, and returns true when the backend has come up.
\<close>

theorem checkBackendStatus_no_cache:
  "fst (checkBackendStatus (fresh backend_recovering)) = False \<and>
   fst (checkBackendStatus (snd (checkBackendStatus (fresh backend_recovering)))) = True \<and>
   length (sent (snd (checkBackendStatus (snd (checkBackendStatus (fresh backend_recovering)))))) = 2"
  by (simp add: checkBackendStatus_def axios_def fresh_def backend_recovering_def)

section \<open>The match score\<close>

text \<open>
  C7, as the code has it: \<^verbatim>\<open>calculateMatchScore\<close> has no fallback. When the request
  fails it throws the failure again; when it succeeds it returns the \<^verbatim>\<open>matchScore\<close>
  property of the response as it is.
\<close>

theorem calculateMatchScore_no_fallback:
  "fst (calculateMatchScore resume jobSkills h) =
     (case respond h (length (sent h))
             (Post (API_URL @ ''/match-resume'')
                (Obj [(''resume'', Str resume), (''jobSkills'', jobSkills)])) of
        Inl e \<Rightarrow> Inl e
      | Inr data \<Rightarrow> get_prop data ''matchScore'')"
  by (simp add: calculateMatchScore_def bind_io_def axios_def pure_io_def split: sum.splits)

text \<open>
  C7 as stated fails: with the scorer unreachable, the resume and the job skills of the
  specification's example give no score (the overlap would be 1/3), but the failure of
  the request.
\<close>

theorem calculateMatchScore_unreachable:
  "fst (calculateMatchScore ''I know react and sql''
          (Arr [Obj [(''name'', Str ''react'')], Obj [(''name'', Str ''python'')]])
          (fresh backend_down)) = Inl (RequestFailed ''ECONNREFUSED'')"
  by (simp add: calculateMatchScore_def bind_io_def axios_def pure_io_def fresh_def
      backend_down_def)

section \<open>Skill extraction\<close>

lemma extractSkills_unfold:
  "fst (extractSkills st ts jd h) =
     (case respond h (length (sent h)) (extract_request jd) of
        Inl e \<Rightarrow> Inl e
      | Inr data \<Rightarrow>
          if isArray data then mapM_err (skill_entry st ts) (elements data) else Inr [])"
  by (simp add: extractSkills_def extract_request_def bind_io_def axios_def pure_io_def
      split: sum.splits)

subsection \<open>The entries of a response\<close>

lemma mapM_err_rel:
  "(\<And>x. x \<in> set xs \<Longrightarrow> \<exists>y. f x = Inr y \<and> R x y) \<Longrightarrow>
   \<exists>ys. mapM_err f xs = Inr ys \<and> list_all2 R xs ys"
proof (induction xs)
  case Nil
  then show ?case by simp
next
  case (Cons x xs)
  from Cons.prems obtain y where y: "f x = Inr y" "R x y" by auto
  from Cons obtain ys where ys: "mapM_err f xs = Inr ys" "list_all2 R xs ys" by auto
  from y ys show ?case by simp
qed

lemma map_of_assign_props:
  "map_of (assign_props base kvs) k =
     (case map_of (rev kvs) k of Some v \<Rightarrow> Some v | None \<Rightarrow> map_of base k)"
  unfolding assign_props_def
proof (induction kvs arbitrary: base)
  case Nil
  then show ?case by simp
next
  case (Cons kv kvs)
  show ?case
    by (simp add: Cons.IH update_conv' map_add_def split: option.splits)
qed

lemma map_of_rev_distinct: "distinct (map fst kvs) \<Longrightarrow> map_of (rev kvs) = map_of kvs"
proof -
  assume d: "distinct (map fst kvs)"
  then have "distinct (map fst (rev kvs))" by (simp add: rev_map [symmetric])
  from map_of_inject_set [OF this d] show ?thesis by simp
qed

lemma get_prop_Obj: "get_prop (Obj kvs) k = Inr (own_prop kvs k)"
  by (simp add: own_prop_def)

lemma truthy_own_prop: "truthy (own_prop kvs k) \<Longrightarrow> map_of kvs k = Some (own_prop kvs k)"
  by (auto simp: own_prop_def split: option.splits)

lemma skill_entry_string: "skill_entry st ts (Str s) = Inr (Obj [(''name'', Str s)])"
  by (simp add: skill_entry_def)

lemma skill_entry_null: "skill_entry st ts Null = Inl TypeError"
  by (simp add: skill_entry_def bind_err_def)

lemma skill_entry_array: "skill_entry st ts (Arr xs) = Inr (Obj [(''name'', Str (st (Arr xs)))])"
  by (simp add: skill_entry_def bind_err_def)

lemma skill_entry_primitive:
  "typeof v \<noteq> ''string'' \<Longrightarrow> typeof v \<noteq> ''object'' \<Longrightarrow>
   skill_entry st ts v = Inr (Obj [(''name'', Str (ts v))])"
  by (simp add: skill_entry_def)

lemma skill_entry_object:
  "skill_entry st ts (Obj kvs) =
     Inr (if truthy (own_prop kvs ''skill'')
          then Obj (assign_props [(''name'', own_prop kvs ''skill'')] kvs)
          else if truthy (own_prop kvs ''name'') then Obj kvs
          else Obj [(''name'', Str (st (Obj kvs)))])"
  by (simp add: skill_entry_def bind_err_def own_prop_def)


lemma list_all2_second: "list_all2 (\<lambda>x y. P y) xs ys \<Longrightarrow> list_all P ys"
  by (induction rule: list_all2_induct) simp_all

lemma list_all2_map_eq:
  "list_all2 (\<lambda>x y. D x \<longrightarrow> f y = g x) xs ys \<Longrightarrow> list_all D xs \<Longrightarrow> map f ys = map g xs"
  by (induction rule: list_all2_induct) simp_all

text \<open>One entry, shape by shape.\<close>

lemma skill_entry_shape:
  assumes "x \<noteq> Null"
  shows "\<exists>y. skill_entry st ts x = Inr y \<and>
           (case x of
              Str s \<Rightarrow> y = Obj [(''name'', Str s)]
            | Obj kvs \<Rightarrow>
                (if truthy (own_prop kvs ''skill'')
                 then y = Obj (assign_props [(''name'', own_prop kvs ''skill'')] kvs)
                 else if truthy (own_prop kvs ''name'') then y = Obj kvs
                 else y = Obj [(''name'', Str (st x))])
            | Arr zs \<Rightarrow> y = Obj [(''name'', Str (st x))]
            | _ \<Rightarrow> y = Obj [(''name'', Str (ts x))])"
  using assms
  by (cases x)
     (simp_all add: skill_entry_string skill_entry_array skill_entry_object skill_entry_primitive)

lemma skill_entry_has_name:
  assumes "skill_entry st ts x = Inr y"
  shows "has_name y"
proof (cases x)
  case (Obj kvs)
  with assms show ?thesis
    by (auto simp: skill_entry_object map_of_assign_props dest: truthy_own_prop
        split: if_splits option.splits)
next
  case Null
  with assms show ?thesis by (simp add: skill_entry_null)
qed (use assms in \<open>auto simp: skill_entry_string skill_entry_array skill_entry_primitive\<close>)

lemma skill_entry_carried:
  assumes "skill_entry st ts x = Inr y" and "distinct_keys x"
  shows "case x of
           Str s \<Rightarrow> y = Obj [(''name'', Str s)]
         | Obj kvs \<Rightarrow>
             (case carried_name x of
                Some n \<Rightarrow>
                  (\<exists>kvs'. y = Obj kvs' \<and> own_prop kvs' ''name'' = n \<and>
                          (\<forall>k. k \<noteq> ''name'' \<longrightarrow> map_of kvs' k = map_of kvs k))
              | None \<Rightarrow> y = Obj [(''name'', Str (st x))])
         | Arr zs \<Rightarrow> y = Obj [(''name'', Str (st x))]
         | _ \<Rightarrow> y = Obj [(''name'', Str (ts x))]"
proof (cases x)
  case (Obj kvs)
  with assms(2) have r: "map_of (rev kvs) = map_of kvs" by (simp add: map_of_rev_distinct)
  from assms(1) show ?thesis
    unfolding Obj skill_entry_object
    by (auto simp: map_of_assign_props r own_prop_def split: if_splits option.splits)
next
  case Null
  with assms show ?thesis by (simp add: skill_entry_null)
qed (use assms in \<open>auto simp: skill_entry_string skill_entry_array skill_entry_primitive\<close>)

lemma skill_entry_string_named:
  assumes "skill_entry st ts x = Inr y" and "distinct_keys x"
  shows "has_string_name y = string_named x"
proof (cases x)
  case (Obj kvs)
  with assms(2) have r: "map_of (rev kvs) = map_of kvs" by (simp add: map_of_rev_distinct)
  from assms(1) show ?thesis
    unfolding Obj skill_entry_object string_named_def
    by (auto simp: map_of_assign_props r own_prop_def split: if_splits option.splits)
next
  case Null
  with assms show ?thesis by (simp add: skill_entry_null)
qed (use assms in \<open>auto simp: skill_entry_string skill_entry_array skill_entry_primitive
      string_named_def\<close>)

text \<open>
  C10, as the code has it: when the response is not an array the result is the empty
  list. When it is an array with no \<^verbatim>\<open>null\<close> entry, the result has one element per
  entry, in order, and every element is an object with a \<^verbatim>\<open>name\<close>: a string is
  wrapped as \<^verbatim>\<open>{name}\<close>; an object with a truthy \<^verbatim>\<open>skill\<close> becomes
  \<^verbatim>\<open>{name: skill, ...entry}\<close>; an object without one but with a truthy
  \<^verbatim>\<open>name\<close> is returned as it is; any other object, and an array, becomes the
  \<^verbatim>\<open>{name}\<close> of its JSON text, and any other value the \<^verbatim>\<open>{name}\<close> of its
  string. The name of an element is a string exactly when the name its entry carries, if
  it carries one, is a string.
\<close>

theorem extractSkills_entries:
  assumes "respond h (length (sent h)) (extract_request jd) = Inr data"
  shows "(\<not> isArray data \<longrightarrow> fst (extractSkills st ts jd h) = Inr []) \<and>
         (isArray data \<and> Null \<notin> set (elements data) \<longrightarrow>
            (\<exists>out. fst (extractSkills st ts jd h) = Inr out \<and>
                   length out = length (elements data) \<and>
                   list_all2
                     (\<lambda>x y. case x of
                        Str s \<Rightarrow> y = Obj [(''name'', Str s)]
                      | Obj kvs \<Rightarrow>
                          (if truthy (own_prop kvs ''skill'')
                           then y = Obj (assign_props [(''name'', own_prop kvs ''skill'')] kvs)
                           else if truthy (own_prop kvs ''name'') then y = Obj kvs
                           else y = Obj [(''name'', Str (st x))])
                      | Arr zs \<Rightarrow> y = Obj [(''name'', Str (st x))]
                      | _ \<Rightarrow> y = Obj [(''name'', Str (ts x))])
                     (elements data) out \<and>
                   list_all has_name out \<and>
                   (list_all distinct_keys (elements data) \<longrightarrow>
                      map has_string_name out = map string_named (elements data))))"
proof (intro conjI impI)
  assume "\<not> isArray data"
  with assms show "fst (extractSkills st ts jd h) = Inr []"
    by (simp add: extractSkills_unfold)
next
  let ?shape = "\<lambda>x y. case x of
                        Str s \<Rightarrow> y = Obj [(''name'', Str s)]
                      | Obj kvs \<Rightarrow>
                          (if truthy (own_prop kvs ''skill'')
                           then y = Obj (assign_props [(''name'', own_prop kvs ''skill'')] kvs)
                           else if truthy (own_prop kvs ''name'') then y = Obj kvs
                           else y = Obj [(''name'', Str (st x))])
                      | Arr zs \<Rightarrow> y = Obj [(''name'', Str (st x))]
                      | _ \<Rightarrow> y = Obj [(''name'', Str (ts x))]"
  let ?R = "\<lambda>x y. ?shape x y \<and> has_name y \<and> (distinct_keys x \<longrightarrow> has_string_name y = string_named x)"
  assume a: "isArray data \<and> Null \<notin> set (elements data)"
  have "\<exists>y. skill_entry st ts x = Inr y \<and> ?R x y" if "x \<in> set (elements data)" for x
  proof -
    from that a have "x \<noteq> Null" by auto
    from skill_entry_shape [OF this, of st ts]
    obtain y where y: "skill_entry st ts x = Inr y" "?shape x y" by blast
    from y(1) have "has_name y" by (rule skill_entry_has_name)
    moreover have "distinct_keys x \<longrightarrow> has_string_name y = string_named x"
      using skill_entry_string_named [OF y(1)] by blast
    ultimately show ?thesis using y by blast
  qed
  from mapM_err_rel [of "elements data" "skill_entry st ts" ?R, OF this]
  obtain out where out: "mapM_err (skill_entry st ts) (elements data) = Inr out"
    and rel: "list_all2 ?R (elements data) out"
    by blast
  from rel have len: "length out = length (elements data)"
    by (simp add: list_all2_lengthD)
  from rel have shape: "list_all2 ?shape (elements data) out"
    by (rule list_all2_mono) simp
  from rel have "list_all2 (\<lambda>x y. has_name y) (elements data) out"
    by (rule list_all2_mono) simp
  then have names: "list_all has_name out" by (rule list_all2_second)
  from rel have "list_all2 (\<lambda>x y. distinct_keys x \<longrightarrow> has_string_name y = string_named x)
                   (elements data) out"
    by (rule list_all2_mono) simp
  then have strs: "list_all distinct_keys (elements data) \<longrightarrow>
                     map has_string_name out = map string_named (elements data)"
    by (auto intro: list_all2_map_eq)
  have "fst (extractSkills st ts jd h) = Inr out"
    using assms a out by (simp add: extractSkills_unfold)
  with len shape names strs
  show "\<exists>out. fst (extractSkills st ts jd h) = Inr out \<and>
               length out = length (elements data) \<and>
               list_all2 ?shape (elements data) out \<and>
               list_all has_name out \<and>
               (list_all distinct_keys (elements data) \<longrightarrow>
                  map has_string_name out = map string_named (elements data))"
    by blast
qed

theorem extractSkills_entries_witness:
  "respond (fresh (backend_const sample_mixed)) (length (sent (fresh (backend_const sample_mixed))))
     (extract_request ''jd'') = Inr sample_mixed \<and>
   isArray sample_mixed \<and> Null \<notin> set (elements sample_mixed) \<and>
   list_all distinct_keys (elements sample_mixed) \<and>
   map string_named (elements sample_mixed) =
     [True, True, True, True, True, False, True, True, True, True] \<and>
   (\<exists>out. fst (extractSkills sample_stringify sample_toString ''jd''
                 (fresh (backend_const sample_mixed))) = Inr out \<and>
          length out = length (elements sample_mixed) \<and>
          list_all2
            (\<lambda>x y. case x of
               Str s \<Rightarrow> y = Obj [(''name'', Str s)]
             | Obj kvs \<Rightarrow>
                 (if truthy (own_prop kvs ''skill'')
                  then y = Obj (assign_props [(''name'', own_prop kvs ''skill'')] kvs)
                  else if truthy (own_prop kvs ''name'') then y = Obj kvs
                  else y = Obj [(''name'', Str (sample_stringify x))])
             | Arr zs \<Rightarrow> y = Obj [(''name'', Str (sample_stringify x))]
             | _ \<Rightarrow> y = Obj [(''name'', Str (sample_toString x))])
            (elements sample_mixed) out \<and>
          list_all has_name out \<and>
          map has_string_name out = map string_named (elements sample_mixed)) \<and>
   respond (fresh (backend_const sample_wrapped)) (length (sent (fresh (backend_const sample_wrapped))))
     (extract_request ''jd'') = Inr sample_wrapped \<and>
   \<not> isArray sample_wrapped \<and>
   fst (extractSkills sample_stringify sample_toString ''jd''
         (fresh (backend_const sample_wrapped))) = Inr []"
proof -
  have r1: "respond (fresh (backend_const sample_mixed))
              (length (sent (fresh (backend_const sample_mixed)))) (extract_request ''jd'') =
            Inr sample_mixed"
    by (simp add: fresh_def backend_const_def)
  have p1: "isArray sample_mixed \<and> Null \<notin> set (elements sample_mixed)"
    by (simp add: sample_mixed_def)
  have d1: "list_all distinct_keys (elements sample_mixed)"
    by (simp add: sample_mixed_def)
  have s1: "map string_named (elements sample_mixed) =
              [True, True, True, True, True, False, True, True, True, True]"
    by (simp add: sample_mixed_def string_named_def own_prop_def)
  have r2: "respond (fresh (backend_const sample_wrapped))
              (length (sent (fresh (backend_const sample_wrapped)))) (extract_request ''jd'') =
            Inr sample_wrapped"
    by (simp add: fresh_def backend_const_def)
  have p2: "\<not> isArray sample_wrapped"
    by (simp add: sample_wrapped_def)
  from extractSkills_entries [OF r1, of sample_stringify sample_toString]
       extractSkills_entries [OF r2, of sample_stringify sample_toString] r1 p1 d1 s1 r2 p2
  show ?thesis by blast
qed

text \<open>
  C10 as stated fails: an entry whose \<^verbatim>\<open>name\<close> is the number 5 is returned as it is,
  with a name that is no string; and a \<^verbatim>\<open>null\<close> entry makes the call throw.
\<close>

theorem extractSkills_name_not_string:
  "fst (extractSkills sample_stringify sample_toString ''jd''
         (fresh (backend_const (Arr [Obj [(''name'', Num 5)]])))) = Inr [Obj [(''name'', Num 5)]] \<and>
   fst (extractSkills sample_stringify sample_toString ''jd''
         (fresh (backend_const (Arr [Null])))) = Inl TypeError"
  by (simp add: extractSkills_unfold fresh_def backend_const_def skill_entry_def bind_err_def)

subsection \<open>No normalisation of names\<close>

text \<open>
  C3, as the code has it: \<^verbatim>\<open>extractSkills\<close> does not lower-case, trim, deduplicate
  or drop. For a response that is an array with no \<^verbatim>\<open>null\<close> entry it returns one
  element per entry, in the order of the response. A string is wrapped under
  \<^verbatim>\<open>name\<close> as it came. An object that carries a name (a truthy \<^verbatim>\<open>skill\<close> or
  \<^verbatim>\<open>name\<close>) gives an element with that name as it came and with every other
  property of the entry as it came. An object that carries none (an empty name, say) is
  kept all the same, named by its JSON text, as is an array; any other value is kept
  under its string.
\<close>

theorem extractSkills_no_normalisation:
  assumes "respond h (length (sent h)) (extract_request jd) = Inr (Arr xs)"
    and "Null \<notin> set xs" and "list_all distinct_keys xs"
  shows "\<exists>out. fst (extractSkills st ts jd h) = Inr out \<and> length out = length xs \<and>
           list_all2
             (\<lambda>x y. case x of
                Str s \<Rightarrow> y = Obj [(''name'', Str s)]
              | Obj kvs \<Rightarrow>
                  (case carried_name x of
                     Some n \<Rightarrow>
                       (\<exists>kvs'. y = Obj kvs' \<and> own_prop kvs' ''name'' = n \<and>
                               (\<forall>k. k \<noteq> ''name'' \<longrightarrow> map_of kvs' k = map_of kvs k))
                   | None \<Rightarrow> y = Obj [(''name'', Str (st x))])
              | Arr zs \<Rightarrow> y = Obj [(''name'', Str (st x))]
              | _ \<Rightarrow> y = Obj [(''name'', Str (ts x))])
             xs out"
proof -
  let ?R = "\<lambda>x y. case x of
                Str s \<Rightarrow> y = Obj [(''name'', Str s)]
              | Obj kvs \<Rightarrow>
                  (case carried_name x of
                     Some n \<Rightarrow>
                       (\<exists>kvs'. y = Obj kvs' \<and> own_prop kvs' ''name'' = n \<and>
                               (\<forall>k. k \<noteq> ''name'' \<longrightarrow> map_of kvs' k = map_of kvs k))
                   | None \<Rightarrow> y = Obj [(''name'', Str (st x))])
              | Arr zs \<Rightarrow> y = Obj [(''name'', Str (st x))]
              | _ \<Rightarrow> y = Obj [(''name'', Str (ts x))]"
  have "\<exists>y. skill_entry st ts x = Inr y \<and> ?R x y" if "x \<in> set xs" for x
  proof -
    from that assms(2) have "x \<noteq> Null" by auto
    from skill_entry_shape [OF this, of st ts]
    obtain y where y: "skill_entry st ts x = Inr y" by blast
    from that assms(3) have "distinct_keys x" by (simp add: list_all_iff)
    from skill_entry_carried [OF y this] y show ?thesis by blast
  qed
  from mapM_err_rel [of xs "skill_entry st ts" ?R, OF this]
  obtain out where out: "mapM_err (skill_entry st ts) xs = Inr out"
    and rel: "list_all2 ?R xs out"
    by blast
  from rel have "length out = length xs" by (simp add: list_all2_lengthD)
  moreover have "fst (extractSkills st ts jd h) = Inr out"
    using assms(1) out by (simp add: extractSkills_unfold)
  ultimately show ?thesis using rel by blast
qed

theorem extractSkills_no_normalisation_witness:
  "respond (fresh (backend_const (Arr sample_raw_entries)))
     (length (sent (fresh (backend_const (Arr sample_raw_entries))))) (extract_request ''jd'') =
     Inr (Arr sample_raw_entries) \<and>
   Null \<notin> set sample_raw_entries \<and> list_all distinct_keys sample_raw_entries \<and>
   map carried_name sample_raw_entries =
     [Some (Str ''React''), Some (Str '' react ''), Some (Str ''React''), None] \<and>
   (\<exists>out. fst (extractSkills sample_stringify sample_toString ''jd''
                 (fresh (backend_const (Arr sample_raw_entries)))) = Inr out \<and>
          length out = length sample_raw_entries \<and>
          list_all2
            (\<lambda>x y. case x of
               Str s \<Rightarrow> y = Obj [(''name'', Str s)]
             | Obj kvs \<Rightarrow>
                 (case carried_name x of
                    Some n \<Rightarrow>
                      (\<exists>kvs'. y = Obj kvs' \<and> own_prop kvs' ''name'' = n \<and>
                              (\<forall>k. k \<noteq> ''name'' \<longrightarrow> map_of kvs' k = map_of kvs k))
                  | None \<Rightarrow> y = Obj [(''name'', Str (sample_stringify x))])
             | Arr zs \<Rightarrow> y = Obj [(''name'', Str (sample_stringify x))]
             | _ \<Rightarrow> y = Obj [(''name'', Str (sample_toString x))])
            sample_raw_entries out)"
proof -
  have r: "respond (fresh (backend_const (Arr sample_raw_entries)))
             (length (sent (fresh (backend_const (Arr sample_raw_entries)))))
             (extract_request ''jd'') =
           Inr (Arr sample_raw_entries)"
    by (simp add: fresh_def backend_const_def)
  have n: "Null \<notin> set sample_raw_entries"
    by (simp add: sample_raw_entries_def sample_nameless_def)
  have d: "list_all distinct_keys sample_raw_entries"
    by (simp add: sample_raw_entries_def sample_nameless_def)
  have c: "map carried_name sample_raw_entries =
             [Some (Str ''React''), Some (Str '' react ''), Some (Str ''React''), None]"
    by (simp add: sample_raw_entries_def sample_nameless_def own_prop_def)
  from extractSkills_no_normalisation [OF r n d, of sample_stringify sample_toString] r n d c
  show ?thesis by blast
qed

text \<open>
  C3 as stated fails: of four skills with metadata, named \<^verbatim>\<open>React\<close>, \<^verbatim>\<open>react\<close>
  between spaces, \<^verbatim>\<open>React\<close> again and the empty name, all four come back: the first
  three as they came, in their own case, with their spaces and each with its own
  metadata, and the fourth under the JSON text of the entry.
\<close>

theorem extractSkills_keeps_raw_entries:
  "fst (extractSkills sample_stringify sample_toString ''jd''
         (fresh (backend_const (Arr sample_raw_entries)))) =
     Inr [Obj [(''name'', Str ''React''), (''category'', Str ''frontend'')],
          Obj [(''name'', Str '' react ''), (''category'', Str ''library'')],
          Obj [(''name'', Str ''React''), (''category'', Str ''framework'')],
          Obj [(''name'', Str (sample_stringify sample_nameless))]]"
  by (simp add: extractSkills_unfold fresh_def backend_const_def skill_entry_def bind_err_def
      sample_raw_entries_def sample_nameless_def)

subsection \<open>Failure of the extractor\<close>

text \<open>
  C4, as the code has it: when the request to the extractor fails,
  \<^verbatim>\<open>extractSkills\<close> throws that failure again; it returns no list, empty or other.
\<close>

theorem extractSkills_rethrows:
  assumes "respond h (length (sent h)) (extract_request jd) = Inl e"
  shows "fst (extractSkills st ts jd h) = Inl e"
  using assms by (simp add: extractSkills_unfold)

theorem extractSkills_rethrows_witness:
  "respond (fresh backend_down) (length (sent (fresh backend_down))) (extract_request ''jd'') =
     Inl (RequestFailed ''ECONNREFUSED'') \<and>
   fst (extractSkills sample_stringify sample_toString ''jd'' (fresh backend_down)) =
     Inl (RequestFailed ''ECONNREFUSED'')"
proof -
  have r: "respond (fresh backend_down) (length (sent (fresh backend_down))) (extract_request ''jd'') =
           Inl (RequestFailed ''ECONNREFUSED'')"
    by (simp add: fresh_def backend_down_def)
  from extractSkills_rethrows [OF r, of sample_stringify sample_toString] r
  show ?thesis by blast
qed

text \<open>
  C4 as stated fails: with the backend down, the call for the job description of the
  specification's example ends in the failure of the request, not in an empty list.
\<close>

theorem extractSkills_unavailable:
  "fst (extractSkills sample_stringify sample_toString ''Need React and Python, 5 years''
         (fresh backend_down)) = Inl (RequestFailed ''ECONNREFUSED'') \<and>
   fst (extractSkills sample_stringify sample_toString ''Need React and Python, 5 years''
         (fresh backend_down)) \<noteq> Inr []"
  by (simp add: extractSkills_unfold fresh_def backend_down_def)


section \<open>Skill gaps\<close>

lemma skill_names_strings:
  "list_all2 (\<lambda>sk n. get_prop sk ''name'' = Inr (Str n)) sks ns \<Longrightarrow>
   skill_names sks = Inr (map Str ns)"
  unfolding skill_names_def
  by (induction rule: list_all2_induct) (auto simp: bind_err_def js_or_def)

lemma names_slice_strings:
  assumes "list_all2 (\<lambda>sk n. get_prop sk ''name'' = Inr (Str n)) sks ns"
  shows "names_slice (Arr sks) a b = Inr (map Str (slice ns a b))"
proof -
  have "list_all2 (\<lambda>sk n. get_prop sk ''name'' = Inr (Str n)) (slice sks a b) (slice ns a b)"
    unfolding slice_def using assms by (intro list_all2_takeI list_all2_dropI)
  then show ?thesis by (simp add: names_slice_def skill_names_strings)
qed

lemma filter_not_in_resume:
  "filterM_err (not_in_resume lc text) (map Str ns) = Inr (map Str (filter (is_gap lc text) ns))"
  by (induction ns) (auto simp: not_in_resume_def is_gap_def)

lemma missing_slice_strings:
  assumes "list_all2 (\<lambda>sk n. get_prop sk ''name'' = Inr (Str n)) sks ns"
  shows "missing_slice lc (Arr sks) text a b =
           Inr (map Str (filter (is_gap lc text) (slice ns a b)))"
  by (simp add: missing_slice_def names_slice_strings [OF assms] bind_err_def filter_not_in_resume)

lemma analysis_of_skillGaps:
  assumes "list_all2 (\<lambda>sk n. get_prop sk ''name'' = Inr (Str n)) sks ns"
  shows "\<exists>analysis. analysis_of lc (Arr sks) text ms = Inr analysis \<and>
           get_prop analysis ''skillGaps'' =
             Inr (Obj [(''critical'', Arr (map Str (filter (is_gap lc text) (slice ns 0 2)))),
                       (''recommended'', Arr (map Str (filter (is_gap lc text) (slice ns 2 5)))),
                       (''nice'', Arr (map Str (slice ns 5 7)))])"
  by (simp add: analysis_of_def missing_slice_strings [OF assms] names_slice_strings [OF assms]
      bind_err_def)

lemma analyzeJobAndProfile_unfold:
  "fst (analyzeJobAndProfile lc jd profile h) =
     (case respond h (length (sent h)) (extract_request jd) of
        Inl e \<Rightarrow> Inl e
      | Inr extracted \<Rightarrow>
          (case respond h (Suc (length (sent h)))
                  (match_request (convertProfileToText profile) extracted) of
             Inl e \<Rightarrow> Inl e
           | Inr scored \<Rightarrow>
               (case get_prop scored ''matchScore'' of
                  Inl e \<Rightarrow> Inl e
                | Inr ms \<Rightarrow> analysis_of lc extracted (convertProfileToText profile) ms)))"
  by (simp add: analyzeJobAndProfile_def gen_extractSkills_def calculateMatchScore_def
      extract_request_def match_request_def bind_io_def axios_def pure_io_def Let_def
      split: sum.splits)

lemma sublist_join: "q \<in> set ps \<Longrightarrow> sublist q (join ps sep)"
proof (induction ps sep rule: join.induct)
  case (3 x y ys sep)
  show ?case
  proof (cases "q = x")
    case True
    then show ?thesis by simp
  next
    case False
    with 3 have "sublist q (join (y # ys) sep)" by simp
    then obtain a b where "join (y # ys) sep = a @ q @ b" by (auto simp: sublist_def)
    then have "join (x # y # ys) sep = (x @ sep @ a) @ q @ b" by simp
    then show ?thesis unfolding sublist_def by blast
  qed
qed simp_all

lemma sublist_ascii_toLowerCase:
  "sublist a b \<Longrightarrow> sublist (ascii_toLowerCase a) (ascii_toLowerCase b)"
proof -
  assume "sublist a b"
  then obtain u v where "b = u @ a @ v" by (auto simp: sublist_def)
  then have "ascii_toLowerCase b = ascii_toLowerCase u @ ascii_toLowerCase a @ ascii_toLowerCase v"
    by (simp add: ascii_toLowerCase_def)
  then show ?thesis unfolding sublist_def by blast
qed

lemma is_ascii_sublist: "sublist a b \<Longrightarrow> is_ascii b \<Longrightarrow> is_ascii a"
  by (auto simp: sublist_def is_ascii_def)

lemma sublist_append_left: "sublist a b \<Longrightarrow> sublist a (c @ b)"
proof -
  assume "sublist a b"
  then obtain u v where "b = u @ a @ v" by (auto simp: sublist_def)
  then have "c @ b = (c @ u) @ a @ v" by simp
  then show ?thesis unfolding sublist_def by blast
qed

lemma convertProfileToText_lists_skills:
  assumes "personalInfo p = Some info" and "skills p = Some ps" and "q \<in> set ps"
  shows "sublist q (convertProfileToText (Some p))"
proof -
  from assms(3) have ne: "length ps > 0" by (cases ps) auto
  have "\<exists>front. convertProfileToText (Some p) = front @ join ps '', ''"
    using assms(1,2) ne by (simp add: convertProfileToText_def Let_def split: option.splits)
  then obtain front where "convertProfileToText (Some p) = front @ join ps '', ''" ..
  with sublist_join [OF assms(3), of "'', ''"] show ?thesis
    by (simp add: sublist_append_left)
qed

lemma no_gap_when_listed:
  assumes "personalInfo p = Some info" and "skills p = Some ps"
    and "q \<in> set ps" and "lc q = lc n"
    and "lowers_ascii lc" and "is_ascii (convertProfileToText (Some p))"
  shows "\<not> is_gap lc (convertProfileToText (Some p)) n"
proof -
  let ?text = "convertProfileToText (Some p)"
  have sub: "sublist q ?text"
    using assms(1-3) by (rule convertProfileToText_lists_skills)
  from sub assms(6) have "is_ascii q" by (rule is_ascii_sublist)
  with assms(5,6) have "lc q = ascii_toLowerCase q" "lc ?text = ascii_toLowerCase ?text"
    by (simp_all add: lowers_ascii_def)
  with sub have "sublist (lc q) (lc ?text)"
    by (simp add: sublist_ascii_toLowerCase)
  with assms(4) show ?thesis by (simp add: is_gap_def str_includes_def)
qed

lemma set_slice: "set (slice xs a b) \<subseteq> set xs"
  unfolding slice_def by (meson set_drop_subset set_take_subset subset_trans)

lemma sample_names:
  "list_all2 (\<lambda>sk n. get_prop sk ''name'' = Inr (Str n))
     sample_skills sample_skill_names"
  by (simp add: sample_skills_def list_all2_map1 list_all2_same)

lemma backend_up_extract:
  "respond (fresh backend_up) k (extract_request jd) =
     Inr (Arr sample_skills)"
  by (simp add: fresh_def backend_up_def extract_request_def)

lemma backend_up_match:
  "respond (fresh backend_up) k (match_request text sks) = Inr (Obj [(''matchScore'', Num 100)])"
  by (simp add: fresh_def backend_up_def match_request_def)

lemma same_after_map:
  assumes "map f ps = ns" and "map f ns = ns"
  shows "\<forall>n \<in> set ns. \<exists>q \<in> set ps. f q = f n"
proof
  fix n assume n: "n \<in> set ns"
  with assms(1) obtain q where q: "q \<in> set ps" "f q = n" by auto
  from assms(2) n have "f n = n" by (metis map_eq_conv map_ident)
  with q show "\<exists>q \<in> set ps. f q = f n" by auto
qed

lemma lower_listed:
  "map ascii_toLowerCase [''React'', ''Python'', ''SQL'', ''Java'', ''Go'', ''Docker'', ''AWS''] =
     sample_skill_names"
  by (simp add: sample_skill_names_def ascii_toLowerCase_def lower_char_def)

lemma lower_sample: "map ascii_toLowerCase sample_skill_names = sample_skill_names"
  by (simp add: sample_skill_names_def ascii_toLowerCase_def lower_char_def)

lemma lowers_ascii_sample: "lowers_ascii ascii_toLowerCase"
  by (simp add: lowers_ascii_def)

lemma sample_text_ascii: "is_ascii (convertProfileToText (Some sample_profile))"
  by (simp add: convertProfileToText_def sample_profile_def is_ascii_def or_empty_def
      experience_text_def education_text_def newline_def Let_def)

lemma sample_names_ascii: "list_all is_ascii sample_skill_names"
  by (simp add: sample_skill_names_def is_ascii_def)

text \<open>
  C5, as the code has it. When the extractor answers with a list of skills that carry
  string names and the scorer answers with a score, the analysis is returned and its gap
  lists are taken by position: \<^verbatim>\<open>critical\<close> holds the names among the first two
  skills, and \<^verbatim>\<open>recommended\<close> those among the third to fifth, that are not empty
  and do not occur in the profile text (as a substring, once the runtime has lower-cased
  both), provided the text is not empty; \<^verbatim>\<open>nice\<close> holds the names of the sixth and
  seventh skill, unfiltered. When the profile text is ASCII and every extracted name is,
  once lower-cased, one of the skills the profile lists, \<^verbatim>\<open>critical\<close> and
  \<^verbatim>\<open>recommended\<close> are empty.
\<close>

theorem analyzeJobAndProfile_skillGaps:
  assumes "respond h (length (sent h)) (extract_request jd) = Inr (Arr sks)"
    and "respond h (Suc (length (sent h)))
           (match_request (convertProfileToText profile) (Arr sks)) = Inr scored"
    and "get_prop scored ''matchScore'' = Inr ms"
    and "list_all2 (\<lambda>sk n. get_prop sk ''name'' = Inr (Str n)) sks ns"
  shows "\<exists>analysis. fst (analyzeJobAndProfile lc jd profile h) = Inr analysis \<and>
           get_prop analysis ''skillGaps'' =
             Inr (Obj [(''critical'',
                          Arr (map Str (filter (is_gap lc (convertProfileToText profile))
                                          (slice ns 0 2)))),
                       (''recommended'',
                          Arr (map Str (filter (is_gap lc (convertProfileToText profile))
                                          (slice ns 2 5)))),
                       (''nice'', Arr (map Str (slice ns 5 7)))]) \<and>
           (\<forall>p info ps.
              profile = Some p \<and> personalInfo p = Some info \<and> skills p = Some ps \<and>
              lowers_ascii lc \<and> is_ascii (convertProfileToText profile) \<and>
              (\<forall>n \<in> set ns. \<exists>q \<in> set ps. lc q = lc n) \<longrightarrow>
              get_prop analysis ''skillGaps'' =
                Inr (Obj [(''critical'', Arr []), (''recommended'', Arr []),
                          (''nice'', Arr (map Str (slice ns 5 7)))]))"
proof -
  let ?text = "convertProfileToText profile"
  from analysis_of_skillGaps [OF assms(4), of lc ?text ms]
  obtain analysis where a: "analysis_of lc (Arr sks) ?text ms = Inr analysis"
    and g: "get_prop analysis ''skillGaps'' =
             Inr (Obj [(''critical'', Arr (map Str (filter (is_gap lc ?text) (slice ns 0 2)))),
                       (''recommended'', Arr (map Str (filter (is_gap lc ?text) (slice ns 2 5)))),
                       (''nice'', Arr (map Str (slice ns 5 7)))])"
    by blast
  have r: "fst (analyzeJobAndProfile lc jd profile h) = Inr analysis"
    using assms(1-3) a by (simp add: analyzeJobAndProfile_unfold)
  have "get_prop analysis ''skillGaps'' =
          Inr (Obj [(''critical'', Arr []), (''recommended'', Arr []),
                    (''nice'', Arr (map Str (slice ns 5 7)))])"
    if p: "profile = Some p" "personalInfo p = Some info" "skills p = Some ps"
      and la: "lowers_ascii lc" "is_ascii (convertProfileToText profile)"
      and sup: "\<forall>n \<in> set ns. \<exists>q \<in> set ps. lc q = lc n"
    for p info ps
  proof -
    have none: "\<not> is_gap lc ?text n" if "n \<in> set ns" for n
    proof -
      from sup that obtain q where q: "q \<in> set ps" "lc q = lc n" by blast
      from no_gap_when_listed [OF p(2) p(3) q la(1)] la(2) p(1) show ?thesis by simp
    qed
    have "filter (is_gap lc ?text) (slice ns a b) = []" for a b
      using none set_slice [of ns a b] by (auto simp: filter_empty_conv)
    with g show ?thesis by simp
  qed
  with r g show ?thesis by blast
qed

theorem analyzeJobAndProfile_skillGaps_witness:
  "respond (fresh backend_up) (length (sent (fresh backend_up))) (extract_request ''jd'') =
     Inr (Arr sample_skills) \<and>
   respond (fresh backend_up) (Suc (length (sent (fresh backend_up))))
     (match_request (convertProfileToText (Some sample_profile))
        (Arr sample_skills)) =
     Inr (Obj [(''matchScore'', Num 100)]) \<and>
   get_prop (Obj [(''matchScore'', Num 100)]) ''matchScore'' = Inr (Num 100) \<and>
   list_all2 (\<lambda>sk n. get_prop sk ''name'' = Inr (Str n))
     sample_skills sample_skill_names \<and>
   lowers_ascii ascii_toLowerCase \<and>
   is_ascii (convertProfileToText (Some sample_profile)) \<and>
   list_all (\<lambda>n. list_ex (\<lambda>q. ascii_toLowerCase q = ascii_toLowerCase n)
                [''React'', ''Python'', ''SQL'', ''Java'', ''Go'', ''Docker'', ''AWS''])
     sample_skill_names \<and>
   (\<exists>analysis.
      fst (analyzeJobAndProfile ascii_toLowerCase ''jd'' (Some sample_profile)
             (fresh backend_up)) = Inr analysis \<and>
      get_prop analysis ''skillGaps'' =
        Inr (Obj [(''critical'', Arr []), (''recommended'', Arr []),
                  (''nice'', Arr (map Str (slice sample_skill_names 5 7)))]))"
proof -
  have ms: "get_prop (Obj [(''matchScore'', Num 100)]) ''matchScore'' = Inr (Num 100)"
    by simp
  have sup: "list_all (\<lambda>n. list_ex (\<lambda>q. ascii_toLowerCase q = ascii_toLowerCase n)
                [''React'', ''Python'', ''SQL'', ''Java'', ''Go'', ''Docker'', ''AWS''])
     sample_skill_names"
    unfolding list_all_iff list_ex_iff
    by (rule same_after_map [OF lower_listed lower_sample])
  have p: "personalInfo sample_profile =
             Some \<lparr>name = Some ''Ann Lee'', email = Some ''ann@example.org'',
                   phone = None, location = Some ''Toronto''\<rparr> \<and>
           skills sample_profile =
             Some [''React'', ''Python'', ''SQL'', ''Java'', ''Go'', ''Docker'', ''AWS'']"
    by (simp add: sample_profile_def)
  from sup have sup': "\<forall>n \<in> set sample_skill_names.
      \<exists>q \<in> set [''React'', ''Python'', ''SQL'', ''Java'', ''Go'', ''Docker'', ''AWS''].
        ascii_toLowerCase q = ascii_toLowerCase n"
    unfolding list_all_iff list_ex_iff .
  from analyzeJobAndProfile_skillGaps [OF backend_up_extract backend_up_match ms sample_names,
      where profile = "Some sample_profile" and jd = "''jd''" and lc = ascii_toLowerCase]
  obtain analysis where
    a: "fst (analyzeJobAndProfile ascii_toLowerCase ''jd'' (Some sample_profile)
               (fresh backend_up)) = Inr analysis"
    and b: "\<forall>p info ps.
              Some sample_profile = Some p \<and> personalInfo p = Some info \<and> skills p = Some ps \<and>
              lowers_ascii ascii_toLowerCase \<and>
              is_ascii (convertProfileToText (Some sample_profile)) \<and>
              (\<forall>n \<in> set sample_skill_names.
                 \<exists>q \<in> set ps. ascii_toLowerCase q = ascii_toLowerCase n) \<longrightarrow>
              get_prop analysis ''skillGaps'' =
                Inr (Obj [(''critical'', Arr []), (''recommended'', Arr []),
                          (''nice'', Arr (map Str (slice sample_skill_names 5 7)))])"
    by blast
  from b p sup' lowers_ascii_sample sample_text_ascii
  have "get_prop analysis ''skillGaps'' =
                Inr (Obj [(''critical'', Arr []), (''recommended'', Arr []),
                          (''nice'', Arr (map Str (slice sample_skill_names 5 7)))])"
    by blast
  with a backend_up_extract backend_up_match ms sample_names sup lowers_ascii_sample
    sample_text_ascii
  show ?thesis by blast
qed

text \<open>
  C5 as stated fails, both ways, on ASCII inputs: for a profile that lists all seven
  required skills, the gap list \<^verbatim>\<open>nice\<close> still holds the sixth and the seventh;
  and for a missing profile, which has none of the required skills, the gap lists
  \<^verbatim>\<open>critical\<close> and \<^verbatim>\<open>recommended\<close> are empty.
\<close>

theorem analyzeJobAndProfile_gaps_differ:
  "is_ascii (convertProfileToText (Some sample_profile)) \<and>
   list_all is_ascii sample_skill_names \<and>
   map_option (map ascii_toLowerCase) (skills sample_profile) = Some sample_skill_names \<and>
   get_path (fst (analyzeJobAndProfile ascii_toLowerCase ''jd'' (Some sample_profile)
                    (fresh backend_up)))
     [''skillGaps'', ''nice''] =
     Inr (Arr [Str ''docker'', Str ''aws'']) \<and>
   get_path (fst (analyzeJobAndProfile ascii_toLowerCase ''jd'' None (fresh backend_up)))
     [''skillGaps'', ''critical''] = Inr (Arr []) \<and>
   get_path (fst (analyzeJobAndProfile ascii_toLowerCase ''jd'' None (fresh backend_up)))
     [''skillGaps'', ''recommended''] = Inr (Arr [])"
proof -
  have "map_option (map ascii_toLowerCase) (skills sample_profile) = Some sample_skill_names"
    using lower_listed by (simp add: sample_profile_def)
  moreover have "slice sample_skill_names 5 7 = [''docker'', ''aws'']"
    by (simp add: slice_def sample_skill_names_def)
  moreover have "convertProfileToText None = []"
    by (simp add: convertProfileToText_def)
  moreover have "filter (is_gap lc []) ns = []" for lc ns
    by (simp add: is_gap_def)
  ultimately show ?thesis
    using sample_text_ascii sample_names_ascii
    by (simp add: analyzeJobAndProfile_unfold backend_up_extract backend_up_match analysis_of_def
        missing_slice_strings [OF sample_names] names_slice_strings [OF sample_names] bind_err_def)
qed

section \<open>The final resume\<close>

subsection \<open>A run on the sample backend\<close>

lemma sample_contact:
  "contact_of (Some sample_profile) =
     Inr (Obj [(''name'', Str ''Ann Lee''), (''email'', Str ''ann@example.org''),
               (''phone'', Undefined), (''location'', Str ''Toronto'')])"
  by (simp add: contact_of_def sample_profile_def field_val_def)

lemma sample_content:
  "succeeded (bind_err (content_of sample_toString ascii_toLowerCase sample_generated sample_preferences)
                checkAtsCompatibility)"
  by (simp add: content_of_def sample_generated_def sample_preferences_def bind_err_def
      as_array_def js_or_def checkAtsCompatibility_def Let_def)

lemma sample_final:
  "succeeded (final_resume c a ats t (Some sample_profile) sample_generated now)"
  by (simp add: final_resume_def sample_contact bind_err_def sample_generated_def)

lemma steady_backend_up: "steady (fresh backend_up)"
  by (simp add: steady_def fresh_def backend_up_def)

lemma sample_run_succeeds:
  "succeeded (fst (generateFinalResume sample_toString ascii_toLowerCase ''jd'' (Some sample_profile)
                     sample_preferences sample_template now (fresh backend_up)))"
proof -
  from analysis_of_skillGaps [OF sample_names]
  obtain A where A: "analysis_of ascii_toLowerCase (Arr sample_skills)
                       (convertProfileToText (Some sample_profile)) (Num 100) = Inr A"
    by blast
  obtain C where C: "content_of sample_toString ascii_toLowerCase sample_generated sample_preferences = Inr C"
    using sample_content by (cases "content_of sample_toString ascii_toLowerCase sample_generated sample_preferences")
      (simp_all add: bind_err_def)
  obtain T where T: "checkAtsCompatibility C = Inr T"
    using sample_content C by (cases "checkAtsCompatibility C") (simp_all add: bind_err_def)
  obtain F where F: "final_resume C A T sample_template (Some sample_profile) sample_generated now = Inr F"
    using sample_final [of C A T sample_template now]
    by (cases "final_resume C A T sample_template (Some sample_profile) sample_generated now")
      simp_all
  show ?thesis
    by (simp add: generateFinalResume_def checkBackendStatus_def analyzeJobAndProfile_def
        generateResumeContent_def gen_extractSkills_def calculateMatchScore_def
        generatePersonalizedResume_def bind_io_def axios_def pure_io_def fresh_def
        backend_up_def A C T F Let_def)
qed

subsection \<open>Two calls on a steady backend\<close>

lemma steady_respond: "respond h' = respond h \<Longrightarrow> steady h' = steady h"
  by (simp add: steady_def)

lemma agree_axios: "agree (=) (axios rq) (axios rq)"
  unfolding agree_def axios_def
proof (intro allI impI conjI)
  fix h h' :: http assume s: "steady h" and r: "respond h' = respond h"
  have "respond h (length (sent h)) rq = respond h 0 rq" using s by (simp add: steady_def)
  moreover have "respond h' (length (sent h')) rq = respond h 0 rq"
    using s r by (simp add: steady_def)
  ultimately show "rel_sum (=) (=)
      (fst (respond h (length (sent h)) rq, h\<lparr>sent := sent h @ [rq]\<rparr>))
      (fst (respond h' (length (sent h')) rq, h'\<lparr>sent := sent h' @ [rq]\<rparr>))"
    by (simp add: sum.rel_eq)
qed simp_all

lemma agree_pure: "rel_sum (=) R r r' \<Longrightarrow> agree R (pure_io r) (pure_io r')"
  by (simp add: agree_def pure_io_def)

lemma agree_pure_same: "agree (=) (pure_io r) (pure_io r)"
  by (rule agree_pure) (simp add: sum.rel_eq)

lemma agree_bind:
  assumes m: "agree (=) m m'" and f: "\<And>v. agree R (f v) (f' v)"
  shows "agree R (bind_io m f) (bind_io m' f')"
  unfolding agree_def
proof (intro allI impI)
  fix h h' :: http assume s: "steady h" and r: "respond h' = respond h"
  from m [unfolded agree_def, rule_format, OF s r]
  have e: "fst (m h) = fst (m' h')"
    and r1: "respond (snd (m h)) = respond h" and r1': "respond (snd (m' h')) = respond h'"
    by (simp_all add: sum.rel_eq)
  show "rel_sum (=) R (fst (bind_io m f h)) (fst (bind_io m' f' h')) \<and>
        respond (snd (bind_io m f h)) = respond h \<and>
        respond (snd (bind_io m' f' h')) = respond h'"
  proof (cases "fst (m h)")
    case (Inl err)
    with e r1 r1' show ?thesis
      by (cases "m h"; cases "m' h'") (simp add: bind_io_def)
  next
    case (Inr v)
    obtain h1 where mh: "m h = (Inr v, h1)" using Inr by (cases "m h") simp
    obtain h1' where mh': "m' h' = (Inr v, h1')" using Inr e by (cases "m' h'") simp
    have s1: "steady h1" using s r1 mh by (simp add: steady_def)
    have rr: "respond h1' = respond h1" using r r1 r1' mh mh' by simp
    from f [of v, unfolded agree_def, rule_format, OF s1 rr]
    have "rel_sum (=) R (fst (f v h1)) (fst (f' v h1')) \<and>
        respond (snd (f v h1)) = respond h1 \<and> respond (snd (f' v h1')) = respond h1'" .
    with mh mh' r1 r1' show ?thesis by (simp add: bind_io_def)
  qed
qed

lemma agree_throw: "agree R (pure_io (Inl e)) (pure_io (Inl e))"
  by (rule agree_pure) simp

lemma agree_if:
  "(c \<Longrightarrow> agree R a a') \<Longrightarrow> (\<not> c \<Longrightarrow> agree R b b') \<Longrightarrow>
   agree R (if c then a else b) (if c then a' else b')"
  by simp

lemma agree_probe:
  "agree (=) (\<lambda>h. case checkBackendStatus h of (b, h') \<Rightarrow> (Inr b, h'))
             (\<lambda>h. case checkBackendStatus h of (b, h') \<Rightarrow> (Inr b, h'))"
  unfolding agree_def
proof (intro allI impI)
  fix h h' :: http assume s: "steady h" and r: "respond h' = respond h"
  have "respond h (length (sent h)) (Get (API_URL @ ''/model-status'')) =
        respond h 0 (Get (API_URL @ ''/model-status''))"
    using s unfolding steady_def by blast
  moreover have "respond h' (length (sent h')) (Get (API_URL @ ''/model-status'')) =
        respond h 0 (Get (API_URL @ ''/model-status''))"
    using s r unfolding steady_def by simp
  ultimately have "respond h (length (sent h)) (Get (API_URL @ ''/model-status'')) =
        respond h' (length (sent h')) (Get (API_URL @ ''/model-status''))"
    by simp
  then show "rel_sum (=) (=) (fst (case checkBackendStatus h of (b, h') \<Rightarrow> (Inr b, h')))
           (fst (case checkBackendStatus h' of (b, h') \<Rightarrow> (Inr b, h'))) \<and>
          respond (snd (case checkBackendStatus h of (b, h') \<Rightarrow> (Inr b, h'))) = respond h \<and>
          respond (snd (case checkBackendStatus h' of (b, h') \<Rightarrow> (Inr b, h'))) = respond h'"
    by (simp add: checkBackendStatus_def axios_def split: sum.splits)
qed

lemma agree_analyzeJobAndProfile:
  "agree (=) (analyzeJobAndProfile lc jd p) (analyzeJobAndProfile lc jd p)"
  unfolding analyzeJobAndProfile_def gen_extractSkills_def calculateMatchScore_def Let_def
  by (intro agree_bind agree_axios agree_pure_same)

lemma agree_generateResumeContent:
  "agree (=) (generateResumeContent ts lc jd p prefs) (generateResumeContent ts lc jd p prefs)"
  unfolding generateResumeContent_def gen_extractSkills_def generatePersonalizedResume_def Let_def
  by (intro agree_bind agree_axios agree_pure_same)

lemma final_resume_timestamp:
  "rel_sum (=) (same_but_timestamp now1 now2)
     (final_resume c a ats t p g now1) (final_resume c a ats t p g now2)"
proof (cases "final_resume c a ats t p g now1")
  case (Inl e)
  then show ?thesis
    by (auto simp: final_resume_def bind_err_def split: sum.splits)
next
  case (Inr v)
  then show ?thesis
    unfolding final_resume_def bind_err_def same_but_timestamp_def
    by (auto split: sum.splits intro!: exI [where x = "[_, _, _, _, _]"])
qed

lemma agree_generateFinalResume:
  "agree (same_but_timestamp now1 now2)
     (generateFinalResume ts lc jd p prefs tmpl now1) (generateFinalResume ts lc jd p prefs tmpl now2)"
  unfolding generateFinalResume_def gen_extractSkills_def generatePersonalizedResume_def Let_def
  by (intro agree_bind agree_probe agree_if agree_throw agree_axios agree_pure_same
      agree_analyzeJobAndProfile agree_generateResumeContent agree_pure final_resume_timestamp)

text \<open>
  C8, as the code has it: on a backend that does not change, a second call with the same
  arguments ends as the first did: in the same error, or in a result that differs from
  the first at most in the timestamp of its version record, which is the time of the
  call.
\<close>

theorem generateFinalResume_repeat:
  assumes "steady h"
  shows "rel_sum (=) (same_but_timestamp now1 now2)
           (fst (generateFinalResume ts lc jd p prefs tmpl now1 h))
           (fst (generateFinalResume ts lc jd p prefs tmpl now2
                  (snd (generateFinalResume ts lc jd p prefs tmpl now1 h))))"
proof -
  have r: "respond (snd (generateFinalResume ts lc jd p prefs tmpl now1 h)) = respond h"
    using agree_generateFinalResume [of now1 now1 ts lc jd p prefs tmpl, unfolded agree_def,
        rule_format, OF assms refl]
    by simp
  from agree_generateFinalResume [of now1 now2 ts lc jd p prefs tmpl, unfolded agree_def,
      rule_format, OF assms r]
  show ?thesis by simp
qed

theorem generateFinalResume_repeat_witness:
  "steady (fresh backend_up) \<and>
   succeeded (fst (generateFinalResume sample_toString ascii_toLowerCase ''jd'' (Some sample_profile)
                     sample_preferences sample_template first_instant (fresh backend_up))) \<and>
   rel_sum (=) (same_but_timestamp first_instant second_instant)
     (fst (generateFinalResume sample_toString ascii_toLowerCase ''jd'' (Some sample_profile)
             sample_preferences sample_template first_instant (fresh backend_up)))
     (fst (generateFinalResume sample_toString ascii_toLowerCase ''jd'' (Some sample_profile)
             sample_preferences sample_template second_instant
             (snd (generateFinalResume sample_toString ascii_toLowerCase ''jd'' (Some sample_profile)
                     sample_preferences sample_template first_instant (fresh backend_up)))))"
  using generateFinalResume_repeat [OF steady_backend_up] steady_backend_up sample_run_succeeds
  by blast

lemma versions_at_inject: "versions_at a = versions_at b \<Longrightarrow> a = b"
  by (simp add: versions_at_def)

lemma same_but_timestamp_differs:
  "same_but_timestamp a b v w \<Longrightarrow> a \<noteq> b \<Longrightarrow> v \<noteq> w"
  by (auto simp: same_but_timestamp_def dest: versions_at_inject)

text \<open>
  C8 as stated fails: on the steady sample backend, a call at one instant and a second
  call a second later, with the same arguments, return different values.
\<close>

theorem generateFinalResume_timestamp_differs:
  "steady (fresh backend_up) \<and>
   fst (generateFinalResume sample_toString ascii_toLowerCase ''jd'' (Some sample_profile)
          sample_preferences sample_template first_instant (fresh backend_up)) \<noteq>
   fst (generateFinalResume sample_toString ascii_toLowerCase ''jd'' (Some sample_profile)
          sample_preferences sample_template second_instant
          (snd (generateFinalResume sample_toString ascii_toLowerCase ''jd'' (Some sample_profile)
                  sample_preferences sample_template first_instant (fresh backend_up))))"
proof -
  let ?run = "generateFinalResume sample_toString ascii_toLowerCase ''jd'' (Some sample_profile)
                sample_preferences sample_template"
  let ?h = "fresh backend_up"
  have ne: "first_instant \<noteq> second_instant"
    by (simp add: first_instant_def second_instant_def)
  have r: "respond (snd (?run first_instant ?h)) = respond ?h"
    using agree_generateFinalResume [of first_instant first_instant, unfolded agree_def,
        rule_format, OF steady_backend_up refl]
    by simp
  from agree_generateFinalResume [of first_instant second_instant, unfolded agree_def,
      rule_format, OF steady_backend_up r]
  have rel: "rel_sum (=) (same_but_timestamp first_instant second_instant)
               (fst (?run first_instant ?h))
               (fst (?run second_instant (snd (?run first_instant ?h))))"
    by simp
  obtain v where v: "fst (?run first_instant ?h) = Inr v"
    using sample_run_succeeds [of first_instant] by (cases "fst (?run first_instant ?h)") simp_all
  with rel obtain w where w: "fst (?run second_instant (snd (?run first_instant ?h))) = Inr w"
    and vw: "same_but_timestamp first_instant second_instant v w"
    by (cases "fst (?run second_instant (snd (?run first_instant ?h)))") simp_all
  from same_but_timestamp_differs [OF vw ne] v w steady_backend_up show ?thesis by simp
qed

subsection \<open>Failure of an upstream call\<close>

lemma sends_axios: "sends (axios rq) 1"
  unfolding sends_def axios_def
  by (intro allI impI conjI) auto

lemma sends_pure: "sends (pure_io r) 0"
  by (simp add: sends_def pure_io_def)

lemma sends_bind:
  assumes m: "sends m a" and f: "\<And>v. sends (f v) b"
  shows "sends (bind_io m f) (a + b)"
  unfolding sends_def
proof (intro allI impI)
  fix h :: http and w and h2 :: http
  assume run: "bind_io m f h = (Inr w, h2)"
  obtain r h1 where mh: "m h = (r, h1)" by (cases "m h")
  with run obtain v where v: "r = Inr v" and fv: "f v h1 = (Inr w, h2)"
    by (cases r) (simp_all add: bind_io_def)
  from m [unfolded sends_def, rule_format, OF mh [unfolded v]]
  obtain n1 where r1: "respond h1 = respond h" and s1: "sent h1 = sent h @ n1"
    and l1: "length n1 = a"
    and a1: "\<forall>i<a. succeeded (respond h (length (sent h) + i) (n1 ! i))"
    by blast
  from f [of v, unfolded sends_def, rule_format, OF fv]
  obtain n2 where r2: "respond h2 = respond h1" and s2: "sent h2 = sent h1 @ n2"
    and l2: "length n2 = b"
    and a2: "\<forall>i<b. succeeded (respond h1 (length (sent h1) + i) (n2 ! i))"
    by blast
  have "\<forall>i<a + b. succeeded (respond h (length (sent h) + i) ((n1 @ n2) ! i))"
  proof (intro allI impI)
    fix i assume i: "i < a + b"
    show "succeeded (respond h (length (sent h) + i) ((n1 @ n2) ! i))"
    proof (cases "i < a")
      case True
      with a1 l1 show ?thesis by (simp add: nth_append)
    next
      case False
      then have "i - a < b" using i by simp
      with a2 have "succeeded (respond h1 (length (sent h1) + (i - a)) (n2 ! (i - a)))" by blast
      with False r1 s1 l1 show ?thesis by (simp add: nth_append)
    qed
  qed
  with r1 r2 s1 s2 l1 l2
  show "respond h2 = respond h \<and>
        (\<exists>new. sent h2 = sent h @ new \<and> length new = a + b \<and>
          (\<forall>i<a + b. succeeded (respond h (length (sent h) + i) (new ! i))))"
    by (intro conjI exI [where x = "n1 @ n2"]) simp_all
qed

lemma sends_analyzeJobAndProfile: "sends (analyzeJobAndProfile lc jd p) 2"
proof -
  have "sends (analyzeJobAndProfile lc jd p) (1 + ((1 + 0) + 0))"
    unfolding analyzeJobAndProfile_def gen_extractSkills_def calculateMatchScore_def Let_def
    by (intro sends_bind sends_axios sends_pure)
  then show ?thesis by (simp add: numeral_2_eq_2)
qed

lemma sends_generateResumeContent: "sends (generateResumeContent ts lc jd p prefs) 2"
proof -
  have "sends (generateResumeContent ts lc jd p prefs) (1 + (1 + 0))"
    unfolding generateResumeContent_def gen_extractSkills_def generatePersonalizedResume_def
      Let_def
    by (intro sends_bind sends_axios sends_pure)
  then show ?thesis by (simp add: numeral_2_eq_2)
qed

lemma sends_probe:
  "sends (bind_io (\<lambda>h. case checkBackendStatus h of (b, h') \<Rightarrow> (Inr b, h'))
            (\<lambda>b. if \<not> b then pure_io (Inl e) else pure_io (Inr ()))) 1"
  unfolding sends_def bind_io_def checkBackendStatus_def axios_def pure_io_def
  by (auto split: sum.splits)

lemma generateFinalResume_regroup:
  "generateFinalResume ts lc jd p prefs tmpl now =
     bind_io (bind_io (\<lambda>h. case checkBackendStatus h of (b, h') \<Rightarrow> (Inr b, h'))
                (\<lambda>b. if \<not> b then pure_io (Inl (Error unavailable_message))
                     else pure_io (Inr ())))
       (\<lambda>u.
     bind_io (analyzeJobAndProfile lc jd p) (\<lambda>analysis.
     bind_io (generateResumeContent ts lc jd p prefs) (\<lambda>content.
     bind_io (pure_io (checkAtsCompatibility content)) (\<lambda>atsCheck.
     bind_io (gen_extractSkills jd) (\<lambda>extractedSkills.
     bind_io (generatePersonalizedResume (convertProfileToText p) jd extractedSkills)
       (\<lambda>generatedResume.
         pure_io (final_resume content analysis atsCheck tmpl p generatedResume now)))))))"
  by (rule ext)
     (simp add: generateFinalResume_def bind_io_def pure_io_def unavailable_message_def Let_def
        split: prod.splits sum.splits)

lemma sends_generateFinalResume: "sends (generateFinalResume ts lc jd p prefs tmpl now) 7"
proof -
  have "sends (generateFinalResume ts lc jd p prefs tmpl now) (1 + (2 + (2 + (0 + (1 + (1 + 0))))))"
    unfolding generateFinalResume_regroup
    unfolding gen_extractSkills_def generatePersonalizedResume_def
    by (intro sends_bind sends_probe sends_analyzeJobAndProfile sends_generateResumeContent
        sends_axios sends_pure)
  then show ?thesis by (simp add: eval_nat_numeral)
qed

lemma all_answered_sends:
  assumes "sent h' = sent h @ new"
    and "\<forall>i<length new. succeeded (respond h (length (sent h) + i) (new ! i))"
  shows "all_answered h h'"
  unfolding all_answered_def list_all_iff
proof
  fix k assume "k \<in> set [length (sent h)..<length (sent h')]"
  then have k: "length (sent h) \<le> k" "k - length (sent h) < length new"
    using assms(1) by auto
  with assms(2) have "succeeded (respond h (length (sent h) + (k - length (sent h)))
                        (new ! (k - length (sent h))))" by blast
  with k assms(1) show "succeeded (respond h k (sent h' ! k))" by (simp add: nth_append)
qed

text \<open>
  C9, as the code has it: \<^verbatim>\<open>generateFinalResume\<close> returns a result only when all
  of its seven requests were answered; there is no partial result. When the status probe
  fails it throws the error that the backend is not available; when the probe and the
  extraction succeed and the scorer fails, it throws the scorer's failure, and the
  extracted skills are lost with it.
\<close>

theorem generateFinalResume_all_or_nothing:
  "(generateFinalResume ts lc jd p prefs tmpl now h = (Inr v, h') \<longrightarrow>
      length (sent h') = length (sent h) + 7 \<and> take (length (sent h)) (sent h') = sent h \<and>
      all_answered h h') \<and>
   (\<not> succeeded (respond h (length (sent h)) (Get (API_URL @ ''/model-status''))) \<longrightarrow>
      fst (generateFinalResume ts lc jd p prefs tmpl now h) = Inl (Error unavailable_message)) \<and>
   (succeeded (respond h (length (sent h)) (Get (API_URL @ ''/model-status''))) \<and>
    respond h (Suc (length (sent h))) (extract_request jd) = Inr extracted \<and>
    respond h (Suc (Suc (length (sent h)))) (match_request (convertProfileToText p) extracted) =
      Inl e \<longrightarrow>
      fst (generateFinalResume ts lc jd p prefs tmpl now h) = Inl e)"
proof (intro conjI impI)
  assume run: "generateFinalResume ts lc jd p prefs tmpl now h = (Inr v, h')"
  from sends_generateFinalResume [unfolded sends_def, rule_format, OF run]
  obtain new where n: "sent h' = sent h @ new" "length new = 7"
    "\<forall>i<7. succeeded (respond h (length (sent h) + i) (new ! i))"
    by blast
  from n show "length (sent h') = length (sent h) + 7" by simp
  from n show "take (length (sent h)) (sent h') = sent h" by simp
  from n show "all_answered h h'" by (intro all_answered_sends [of h' h new]) simp_all
next
  assume "\<not> succeeded (respond h (length (sent h)) (Get (API_URL @ ''/model-status'')))"
  then show "fst (generateFinalResume ts lc jd p prefs tmpl now h) = Inl (Error unavailable_message)"
    by (cases "respond h (length (sent h)) (Get (API_URL @ ''/model-status''))")
       (simp_all add: generateFinalResume_def bind_io_def checkBackendStatus_def axios_def
          pure_io_def unavailable_message_def)
next
  assume "succeeded (respond h (length (sent h)) (Get (API_URL @ ''/model-status''))) \<and>
    respond h (Suc (length (sent h))) (extract_request jd) = Inr extracted \<and>
    respond h (Suc (Suc (length (sent h)))) (match_request (convertProfileToText p) extracted) =
      Inl e"
  then show "fst (generateFinalResume ts lc jd p prefs tmpl now h) = Inl e"
    by (cases "respond h (length (sent h)) (Get (API_URL @ ''/model-status''))")
       (simp_all add: generateFinalResume_def bind_io_def checkBackendStatus_def axios_def
          pure_io_def analyzeJobAndProfile_def gen_extractSkills_def extract_request_def
          calculateMatchScore_def match_request_def Let_def)
qed


theorem generateFinalResume_all_or_nothing_witness:
  "succeeded (fst (generateFinalResume sample_toString ascii_toLowerCase ''jd'' (Some sample_profile)
                     sample_preferences sample_template first_instant (fresh backend_up))) \<and>
   length (sent (snd (generateFinalResume sample_toString ascii_toLowerCase ''jd'' (Some sample_profile)
                        sample_preferences sample_template first_instant (fresh backend_up)))) =
     length (sent (fresh backend_up)) + 7 \<and>
   all_answered (fresh backend_up)
     (snd (generateFinalResume sample_toString ascii_toLowerCase ''jd'' (Some sample_profile)
             sample_preferences sample_template first_instant (fresh backend_up))) \<and>
   \<not> succeeded (respond (fresh backend_down) (length (sent (fresh backend_down)))
                  (Get (API_URL @ ''/model-status''))) \<and>
   fst (generateFinalResume sample_toString ascii_toLowerCase ''jd'' (Some sample_profile)
          sample_preferences sample_template first_instant (fresh backend_down)) =
     Inl (Error unavailable_message) \<and>
   succeeded (respond (fresh backend_no_scorer) (length (sent (fresh backend_no_scorer)))
                (Get (API_URL @ ''/model-status''))) \<and>
   respond (fresh backend_no_scorer) (Suc (length (sent (fresh backend_no_scorer))))
     (extract_request ''jd'') =
     Inr (Arr sample_skills) \<and>
   respond (fresh backend_no_scorer) (Suc (Suc (length (sent (fresh backend_no_scorer)))))
     (match_request (convertProfileToText (Some sample_profile))
        (Arr sample_skills)) =
     Inl (RequestFailed ''timeout'') \<and>
   fst (generateFinalResume sample_toString ascii_toLowerCase ''jd'' (Some sample_profile)
          sample_preferences sample_template first_instant (fresh backend_no_scorer)) =
     Inl (RequestFailed ''timeout'')"
proof -
  let ?run = "generateFinalResume sample_toString ascii_toLowerCase ''jd'' (Some sample_profile)
                sample_preferences sample_template first_instant"
  obtain v h' where run: "?run (fresh backend_up) = (Inr v, h')"
    using sample_run_succeeds [of first_instant]
    by (cases "?run (fresh backend_up)"; cases "fst (?run (fresh backend_up))") simp_all
  have down: "\<not> succeeded (respond (fresh backend_down) (length (sent (fresh backend_down)))
                  (Get (API_URL @ ''/model-status'')))"
    by (simp add: fresh_def backend_down_def)
  have up: "succeeded (respond (fresh backend_no_scorer) (length (sent (fresh backend_no_scorer)))
                (Get (API_URL @ ''/model-status'')))"
    by (simp add: fresh_def backend_no_scorer_def)
  have ex: "respond (fresh backend_no_scorer) (Suc (length (sent (fresh backend_no_scorer))))
     (extract_request ''jd'') =
     Inr (Arr sample_skills)"
    by (simp add: fresh_def backend_no_scorer_def backend_up_def extract_request_def)
  have sc: "respond (fresh backend_no_scorer) (Suc (Suc (length (sent (fresh backend_no_scorer)))))
     (match_request (convertProfileToText (Some sample_profile))
        (Arr sample_skills)) =
     Inl (RequestFailed ''timeout'')"
    by (simp add: fresh_def backend_no_scorer_def match_request_def)
  from generateFinalResume_all_or_nothing
         [of sample_toString ascii_toLowerCase "''jd''" "Some sample_profile" sample_preferences sample_template
             first_instant "fresh backend_up" v h']
       generateFinalResume_all_or_nothing
         [of sample_toString ascii_toLowerCase "''jd''" "Some sample_profile" sample_preferences sample_template
             first_instant "fresh backend_down"]
       generateFinalResume_all_or_nothing
         [of sample_toString ascii_toLowerCase "''jd''" "Some sample_profile" sample_preferences sample_template
             first_instant "fresh backend_no_scorer" _ _
             "Arr sample_skills"
             "RequestFailed ''timeout''"]
       run down up ex sc
  show ?thesis by simp
qed

lemma backend_down_run:
  "fst (generateFinalResume ts lc jd p prefs tmpl now (fresh backend_down)) =
     Inl (Error unavailable_message)"
  by (simp add: generateFinalResume_def checkBackendStatus_def bind_io_def axios_def
      pure_io_def fresh_def backend_down_def unavailable_message_def)

lemma backend_no_scorer_run:
  "fst (generateFinalResume ts lc jd p prefs tmpl now (fresh backend_no_scorer)) =
     Inl (RequestFailed ''timeout'')"
  by (simp add: generateFinalResume_def checkBackendStatus_def analyzeJobAndProfile_def
      gen_extractSkills_def calculateMatchScore_def bind_io_def axios_def pure_io_def
      fresh_def backend_no_scorer_def backend_up_def Let_def)

text \<open>
  C9 as stated fails: when the scorer times out after the extractor has answered, the
  call ends in the scorer's failure and nothing of the extracted skills is returned; when
  the backend is down, it ends in the error that the backend is not available.
\<close>

theorem generateFinalResume_no_partial_result:
  "fst (generateFinalResume sample_toString ascii_toLowerCase ''jd'' (Some sample_profile)
          sample_preferences sample_template first_instant (fresh backend_no_scorer)) =
     Inl (RequestFailed ''timeout'') \<and>
   respond (fresh backend_no_scorer) 1 (extract_request ''jd'') =
     Inr (Arr sample_skills) \<and>
   fst (generateFinalResume sample_toString ascii_toLowerCase ''jd'' (Some sample_profile)
          sample_preferences sample_template first_instant (fresh backend_down)) =
     Inl (Error unavailable_message)"
  by (simp add: backend_down_run backend_no_scorer_run)
     (simp add: fresh_def backend_no_scorer_def backend_up_def extract_request_def)


end
